theory Spec2Isabelle
  imports Complex_Main
begin

section \<open>Values, events and outcomes\<close>

text \<open>
  The class \<^verbatim>\<open>MotionEvent\<close> of \<^verbatim>\<open>kivy/input/motionevent.py\<close> is a Python class whose
  methods read and assign instance attributes, and whose \<^verbatim>\<open>push\<close> and \<^verbatim>\<open>pop\<close> reach
  them by name (\<^verbatim>\<open>getattr\<close>, \<^verbatim>\<open>setattr\<close>). An event is therefore modelled as its instance
  dictionary: a map from attribute names to Python values.

  Python values: \<^verbatim>\<open>None\<close>, booleans, numbers, strings, weak references, tuples, lists and
  dictionaries. A number is a \<open>real\<close>: the integers and floats of the source are not
  told apart (Python compares them by value), and float rounding is not modelled. A weak
  reference \<^verbatim>\<open>weakref.ref(obj)\<close> is \<open>VRef n\<close>, where the number \<open>n\<close> names the referent up
  to Python's \<^verbatim>\<open>==\<close>: two weak references to live objects are equal exactly when their
  referents are equal, which for objects that define no \<^verbatim>\<open>__eq__\<close> means that they are
  the same object. Referents are taken to be alive. Lists are held by value.
\<close>

datatype val =
    VNone
  | VBool bool
  | VNum real
  | VStr string
  | VRef nat
  | VTuple "val list"
  | VList "val list"
  | VDict "(val \<times> val) list"

type_synonym event = "string \<Rightarrow> val option"

text \<open>
  The exceptions the methods can raise. \<^verbatim>\<open>grab\<close> raises the plain \<^verbatim>\<open>Exception\<close> class with
  a message; the specification calls the two cases \<open>NotGrabbable\<close> and \<open>AlreadyExclusive\<close>.
  \<^verbatim>\<open>pop\<close> on an empty list raises \<^verbatim>\<open>IndexError\<close>, the specification's \<open>EmptyStackUnderflow\<close>.
\<close>

datatype error =
    NotImplementedError string
  | Exception string
  | IndexError
  | KeyError
  | AttributeError
  | TypeError
  | ValueError

abbreviation NotGrabbable :: error where
  "NotGrabbable \<equiv> Exception ''Grab work only for Touch Motion Event.''"

abbreviation AlreadyExclusive :: error where
  "AlreadyExclusive \<equiv> Exception ''Cannot grab the touch, touch are exclusive''"

abbreviation EmptyStackUnderflow :: error where
  "EmptyStackUnderflow \<equiv> IndexError"

text \<open>
  A method call either returns (all methods modelled here return \<^verbatim>\<open>None\<close>) or raises; both
  outcomes carry the event as the call left it, so that what a failed call did to the
  event can be stated.
\<close>

datatype outcome = Return event | Raise error event

fun state_of :: "outcome \<Rightarrow> event" where
  "state_of (Return e) = e"
| "state_of (Raise err e) = e"

fun returns :: "outcome \<Rightarrow> bool" where
  "returns (Return e) = True"
| "returns (Raise err e) = False"

subsection \<open>Python's operators on values\<close>

text \<open>Truth value testing, as \<^verbatim>\<open>if v:\<close> and \<^verbatim>\<open>not v\<close> do it.\<close>

fun truthy :: "val \<Rightarrow> bool" where
  "truthy VNone = False"
| "truthy (VBool b) = b"
| "truthy (VNum r) = (r \<noteq> 0)"
| "truthy (VStr s) = (s \<noteq> [])"
| "truthy (VRef n) = True"
| "truthy (VTuple xs) = (xs \<noteq> [])"
| "truthy (VList xs) = (xs \<noteq> [])"
| "truthy (VDict kvs) = (kvs \<noteq> [])"

text \<open>The numeric reading of a value: numbers, and booleans as 0 and 1.\<close>

fun num_of :: "val \<Rightarrow> real option" where
  "num_of (VNum r) = Some r"
| "num_of (VBool b) = Some (if b then 1 else 0)"
| "num_of v = None"

text \<open>\<^verbatim>\<open>a - b\<close>: defined on numbers, \<^verbatim>\<open>TypeError\<close> on every other value of the model.\<close>

definition py_sub :: "val \<Rightarrow> val \<Rightarrow> error + val" where
  "py_sub a b =
     (case num_of a of
        None \<Rightarrow> Inl TypeError
      | Some x \<Rightarrow> (case num_of b of None \<Rightarrow> Inl TypeError | Some y \<Rightarrow> Inr (VNum (x - y))))"

text \<open>
  \<^verbatim>\<open>a * float(r)\<close> for a number \<open>r\<close>: a float multiplies numbers only (a string or a list
  times a float is a \<^verbatim>\<open>TypeError\<close>).
\<close>

definition py_mul_float :: "val \<Rightarrow> real \<Rightarrow> error + val" where
  "py_mul_float a r = (case num_of a of None \<Rightarrow> Inl TypeError | Some x \<Rightarrow> Inr (VNum (x * r)))"

text \<open>\<^verbatim>\<open>s in t\<close> for two strings: \<open>s\<close> occurs in \<open>t\<close> as a contiguous substring.\<close>

fun is_substr :: "string \<Rightarrow> string \<Rightarrow> bool" where
  "is_substr s [] = (s = [])"
| "is_substr s (c # t) = (take (length s) (c # t) = s \<or> is_substr s t)"

text \<open>
  \<^verbatim>\<open>a in c\<close>: membership in a list or tuple, key membership in a dictionary, substring
  test between strings, \<^verbatim>\<open>TypeError\<close> otherwise. The methods use it with a string or a
  weak reference on the left, for which \<^verbatim>\<open>==\<close> against any value of the model is equality
  of the values.
\<close>

fun py_in :: "val \<Rightarrow> val \<Rightarrow> error + bool" where
  "py_in a (VList xs) = Inr (a \<in> set xs)"
| "py_in a (VTuple xs) = Inr (a \<in> set xs)"
| "py_in a (VDict kvs) = Inr (a \<in> fst ` set kvs)"
| "py_in (VStr s) (VStr t) = Inr (is_substr s t)"
| "py_in a c = Inl TypeError"

text \<open>
  Iteration (\<^verbatim>\<open>for x in c\<close>, and the unpacking of an assignment to several targets): the
  elements of a tuple or list, the one-character strings of a string, the keys of a
  dictionary; any other value of the model is not iterable.
\<close>

fun iter_items :: "val \<Rightarrow> val list option" where
  "iter_items (VTuple xs) = Some xs"
| "iter_items (VList xs) = Some xs"
| "iter_items (VStr s) = Some (map (\<lambda>c. VStr [c]) s)"
| "iter_items (VDict kvs) = Some (map fst kvs)"
| "iter_items v = None"

text \<open>
  \<^verbatim>\<open>a, b = c\<close>: \<open>c\<close> must be iterable (\<^verbatim>\<open>TypeError\<close>) and yield exactly two items
  (\<^verbatim>\<open>ValueError\<close>).
\<close>

definition unpack2 :: "val \<Rightarrow> error + val \<times> val" where
  "unpack2 c =
     (case iter_items c of
        None \<Rightarrow> Inl TypeError
      | Some [a, b] \<Rightarrow> Inr (a, b)
      | Some _ \<Rightarrow> Inl ValueError)"

text \<open>\<^verbatim>\<open>len(c)\<close>.\<close>

fun py_len :: "val \<Rightarrow> error + nat" where
  "py_len (VTuple xs) = Inr (length xs)"
| "py_len (VList xs) = Inr (length xs)"
| "py_len (VStr s) = Inr (length s)"
| "py_len (VDict kvs) = Inr (length kvs)"
| "py_len v = Inl TypeError"

text \<open>
  \<^verbatim>\<open>c[i]\<close> for an index \<open>i\<close> that is not negative: the item of a tuple, list or string
  (\<^verbatim>\<open>IndexError\<close> past the end), the value a dictionary holds for a key equal to the
  number \<open>i\<close> (\<^verbatim>\<open>KeyError\<close> when it has none), \<^verbatim>\<open>TypeError\<close> otherwise.
\<close>

fun py_index :: "val \<Rightarrow> nat \<Rightarrow> error + val" where
  "py_index (VTuple xs) i = (if i < length xs then Inr (xs ! i) else Inl IndexError)"
| "py_index (VList xs) i = (if i < length xs then Inr (xs ! i) else Inl IndexError)"
| "py_index (VStr s) i = (if i < length s then Inr (VStr [s ! i]) else Inl IndexError)"
| "py_index (VDict kvs) i =
     (case find (\<lambda>kv. num_of (fst kv) = Some (real i)) kvs of
        None \<Rightarrow> Inl KeyError
      | Some kv \<Rightarrow> Inr (snd kv))"
| "py_index v i = Inl TypeError"

subsection \<open>Attribute access\<close>

text \<open>
  The class defines five read-only properties. \<^verbatim>\<open>getattr\<close> on one of their names runs the
  getter; \<^verbatim>\<open>setattr\<close> on one raises \<^verbatim>\<open>AttributeError\<close> (a property without a setter on a
  new-style class). Every other name is looked up in, and assigned to, the instance
  dictionary. Names that Python resolves on the class itself (methods, \<^verbatim>\<open>__attrs__\<close>, the
  double-underscore names) are outside the model.
\<close>

definition properties :: "string list" where
  "properties = [''dpos'', ''opos'', ''ppos'', ''spos'', ''is_mouse_scrolling'']"

definition pair_of :: "event \<Rightarrow> string \<Rightarrow> string \<Rightarrow> error + val" where
  "pair_of e a b =
     (case e a of
        None \<Rightarrow> Inl AttributeError
      | Some u \<Rightarrow> (case e b of None \<Rightarrow> Inl AttributeError | Some v \<Rightarrow> Inr (VTuple [u, v])))"

definition is_mouse_scrolling :: "event \<Rightarrow> error + val" where
  "is_mouse_scrolling e =
     (case e ''profile'' of
        None \<Rightarrow> Inl AttributeError
      | Some pr \<Rightarrow>
         (case py_in (VStr ''button'') pr of
            Inl err \<Rightarrow> Inl err
          | Inr False \<Rightarrow> Inr (VBool False)
          | Inr True \<Rightarrow>
             (case e ''button'' of
                None \<Rightarrow> Inl AttributeError
              | Some b \<Rightarrow>
                 (case py_in (VStr ''scroll'') b of
                    Inl err \<Rightarrow> Inl err
                  | Inr r \<Rightarrow> Inr (VBool r)))))"

definition getattr :: "event \<Rightarrow> string \<Rightarrow> error + val" where
  "getattr e n =
     (if n = ''dpos'' then pair_of e ''dx'' ''dy''
      else if n = ''opos'' then pair_of e ''ox'' ''oy''
      else if n = ''ppos'' then pair_of e ''px'' ''py''
      else if n = ''spos'' then pair_of e ''sx'' ''sy''
      else if n = ''is_mouse_scrolling'' then is_mouse_scrolling e
      else (case e n of None \<Rightarrow> Inl AttributeError | Some v \<Rightarrow> Inr v))"

definition setattr :: "event \<Rightarrow> string \<Rightarrow> val \<Rightarrow> error + event" where
  "setattr e n v = (if n \<in> set properties then Inl AttributeError else Inr (e(n \<mapsto> v)))"

subsection \<open>Statements\<close>

text \<open>
  The building blocks the method bodies are written with. \<open>attr e n k\<close> reads the plain
  instance attribute \<^verbatim>\<open>self.n\<close> and continues with its value (\<^verbatim>\<open>AttributeError\<close> when the
  instance has no such attribute); \<open>calc r e k\<close> continues with the value of an expression
  or raises its error; \<open>andthen\<close> sequences two statements, and \<open>run\<close> a list of them: an
  exception ends the sequence and keeps the event as it is at that moment.
\<close>

definition attr :: "event \<Rightarrow> string \<Rightarrow> (val \<Rightarrow> outcome) \<Rightarrow> outcome" where
  "attr e n k = (case e n of None \<Rightarrow> Raise AttributeError e | Some v \<Rightarrow> k v)"

definition calc :: "error + val \<Rightarrow> event \<Rightarrow> (val \<Rightarrow> outcome) \<Rightarrow> outcome" where
  "calc r e k = (case r of Inl err \<Rightarrow> Raise err e | Inr v \<Rightarrow> k v)"

definition andthen :: "outcome \<Rightarrow> (event \<Rightarrow> outcome) \<Rightarrow> outcome" where
  "andthen r k = (case r of Return e \<Rightarrow> k e | Raise err e \<Rightarrow> Raise err e)"

fun run :: "(event \<Rightarrow> outcome) list \<Rightarrow> event \<Rightarrow> outcome" where
  "run [] e = Return e"
| "run (s # ss) e = andthen (s e) (run ss)"

text \<open>\<^verbatim>\<open>self.n = v\<close> for a value already computed.\<close>

definition assign :: "string \<Rightarrow> val \<Rightarrow> event \<Rightarrow> outcome" where
  "assign n v e = Return (e(n \<mapsto> v))"

text \<open>\<^verbatim>\<open>self.dst = self.src\<close>.\<close>

definition copy_attr :: "string \<Rightarrow> string \<Rightarrow> event \<Rightarrow> outcome" where
  "copy_attr dst src e = attr e src (\<lambda>v. Return (e(dst \<mapsto> v)))"

text \<open>\<^verbatim>\<open>self.d1 = self.d2 = self.src\<close>: the value is read once, the targets assigned left to right.\<close>

definition copy_attr2 :: "string \<Rightarrow> string \<Rightarrow> string \<Rightarrow> event \<Rightarrow> outcome" where
  "copy_attr2 d1 d2 src e = attr e src (\<lambda>v. Return (e(d1 \<mapsto> v, d2 \<mapsto> v)))"

text \<open>\<^verbatim>\<open>self.d = self.a - self.b\<close>.\<close>

definition delta_assign :: "string \<Rightarrow> string \<Rightarrow> string \<Rightarrow> event \<Rightarrow> outcome" where
  "delta_assign d a b e =
     attr e a (\<lambda>av. attr e b (\<lambda>bv. calc (py_sub av bv) e (\<lambda>v. Return (e(d \<mapsto> v)))))"

section \<open>The methods of MotionEvent\<close>

subsection \<open>depack and the constructor\<close>

text \<open>
  Lines 269 to 272 of \<^verbatim>\<open>depack\<close>: when \<^verbatim>\<open>osx\<close> is still \<^verbatim>\<open>None\<close>, previous and origin
  are seeded from the current normalized position.
\<close>

definition seed_normalized :: "event \<Rightarrow> outcome" where
  "seed_normalized e =
     attr e ''osx'' (\<lambda>osx.
       if osx = VNone then
         run [copy_attr2 ''psx'' ''osx'' ''sx'',
              copy_attr2 ''psy'' ''osy'' ''sy'',
              copy_attr2 ''psz'' ''osz'' ''sz''] e
       else Return e)"

text \<open>
  \<^verbatim>\<open>depack(self, args)\<close>, lines 266 to 276. The base class ignores \<open>args\<close>: it seeds origin
  and previous on the first call, then recomputes the normalized delta.
\<close>

definition depack :: "val \<Rightarrow> event \<Rightarrow> outcome" where
  "depack args =
     run [seed_normalized,
          delta_assign ''dsx'' ''sx'' ''psx'',
          delta_assign ''dsy'' ''sy'' ''psy'',
          delta_assign ''dsz'' ''sz'' ''psz'']"

text \<open>The default of \<^verbatim>\<open>push_attrs\<close>, line 161.\<close>

definition default_push_attrs :: "string list" where
  "default_push_attrs =
     [''x'', ''y'', ''z'', ''dx'', ''dy'', ''dz'', ''ox'', ''oy'', ''oz'',
      ''px'', ''py'', ''pz'', ''pos'']"

text \<open>
  The attribute assignments of \<^verbatim>\<open>__init__\<close>, lines 156 to 262, in the order of the source.
  \<open>uniq\<close> is the class counter \<^verbatim>\<open>__uniq_id\<close> before the call (the call increments it and
  takes the new value as \<^verbatim>\<open>uid\<close>), \<open>now\<close> is what \<^verbatim>\<open>time()\<close> returns.
\<close>

definition init_attrs :: "nat \<Rightarrow> real \<Rightarrow> val \<Rightarrow> val \<Rightarrow> event" where
  "init_attrs uniq now device ident =
     Map.empty(
       ''is_touch'' \<mapsto> VBool False,
       ''push_attrs_stack'' \<mapsto> VList [],
       ''push_attrs'' \<mapsto> VTuple (map VStr default_push_attrs),
       ''uid'' \<mapsto> VNum (real (uniq + 1)),
       ''device'' \<mapsto> device,
       ''grab_list'' \<mapsto> VList [],
       ''grab_exclusive_class'' \<mapsto> VNone,
       ''grab_state'' \<mapsto> VBool False,
       ''grab_current'' \<mapsto> VNone,
       ''profile'' \<mapsto> VList [],
       ''id'' \<mapsto> ident,
       ''shape'' \<mapsto> VNone,
       ''sx'' \<mapsto> VNum 0, ''sy'' \<mapsto> VNum 0, ''sz'' \<mapsto> VNum 0,
       ''osx'' \<mapsto> VNone, ''osy'' \<mapsto> VNone, ''osz'' \<mapsto> VNone,
       ''psx'' \<mapsto> VNone, ''psy'' \<mapsto> VNone, ''psz'' \<mapsto> VNone,
       ''dsx'' \<mapsto> VNone, ''dsy'' \<mapsto> VNone, ''dsz'' \<mapsto> VNone,
       ''x'' \<mapsto> VNum 0, ''y'' \<mapsto> VNum 0, ''z'' \<mapsto> VNum 0,
       ''ox'' \<mapsto> VNone, ''oy'' \<mapsto> VNone, ''oz'' \<mapsto> VNone,
       ''px'' \<mapsto> VNone, ''py'' \<mapsto> VNone, ''pz'' \<mapsto> VNone,
       ''dx'' \<mapsto> VNone, ''dy'' \<mapsto> VNone, ''dz'' \<mapsto> VNone,
       ''pos'' \<mapsto> VTuple [VNum 0, VNum 0],
       ''time_start'' \<mapsto> VNum now,
       ''time_update'' \<mapsto> VNum now,
       ''time_end'' \<mapsto> VNum (- 1),
       ''is_double_tap'' \<mapsto> VBool False,
       ''double_tap_time'' \<mapsto> VNum 0,
       ''ud'' \<mapsto> VDict [])"

text \<open>
  \<^verbatim>\<open>__init__(self, device, id, args)\<close>, lines 149 to 264. \<open>cls\<close> is the name of the class
  being instantiated: the base class itself is abstract and refuses, before any attribute
  exists. A subclass that does not override \<^verbatim>\<open>depack\<close> runs the one above.
\<close>

definition MotionEvent_init :: "string \<Rightarrow> nat \<Rightarrow> real \<Rightarrow> val \<Rightarrow> val \<Rightarrow> val \<Rightarrow> outcome" where
  "MotionEvent_init cls uniq now device ident args =
     (if cls = ''MotionEvent''
      then Raise (NotImplementedError ''class MotionEvent is abstract'') Map.empty
      else depack args (init_attrs uniq now device ident))"

subsection \<open>grab and ungrab\<close>

text \<open>
  \<^verbatim>\<open>grab(self, class_instance, exclusive=False)\<close>, lines 278 to 307. The claimant is given
  by its number; \<^verbatim>\<open>weakref.ref(class_instance)\<close> is \<open>VRef class_instance\<close>.
\<close>

definition grab :: "nat \<Rightarrow> bool \<Rightarrow> event \<Rightarrow> outcome" where
  "grab class_instance exclusive e =
     attr e ''is_touch'' (\<lambda>t.
       if \<not> truthy t then Raise (Exception ''Grab work only for Touch Motion Event.'') e
       else attr e ''grab_exclusive_class'' (\<lambda>x.
         if x \<noteq> VNone then Raise (Exception ''Cannot grab the touch, touch are exclusive'') e
         else
           let r = VRef class_instance;
               e1 = (if exclusive then e(''grab_exclusive_class'' \<mapsto> r) else e)
           in attr e1 ''grab_list'' (\<lambda>gl.
                case gl of
                  VList xs \<Rightarrow> Return (e1(''grab_list'' \<mapsto> VList (xs @ [r])))
                | _ \<Rightarrow> Raise AttributeError e1)))"

text \<open>
  \<^verbatim>\<open>ungrab(self, class_instance)\<close>, lines 309 to 316. The comparison with the exclusive
  claimant, the membership test and \<^verbatim>\<open>list.remove\<close> (which deletes the first equal item)
  all use \<^verbatim>\<open>==\<close> between weak references, that is equality of the \<open>VRef\<close> values. On a
  \<^verbatim>\<open>grab_list\<close> that is not a list the membership test works or raises as \<open>py_in\<close>
  says, and \<^verbatim>\<open>remove\<close> does not exist.
\<close>

definition ungrab :: "nat \<Rightarrow> event \<Rightarrow> outcome" where
  "ungrab class_instance e =
     (let r = VRef class_instance in
      attr e ''grab_exclusive_class'' (\<lambda>x.
        let e1 = (if x = r then e(''grab_exclusive_class'' \<mapsto> VNone) else e) in
        attr e1 ''grab_list'' (\<lambda>gl.
          case py_in r gl of
            Inl err \<Rightarrow> Raise err e1
          | Inr False \<Rightarrow> Return e1
          | Inr True \<Rightarrow>
             (case gl of
                VList xs \<Rightarrow> Return (e1(''grab_list'' \<mapsto> VList (remove1 r xs)))
              | _ \<Rightarrow> Raise AttributeError e1))))"

subsection \<open>move\<close>

text \<open>\<^verbatim>\<open>move(self, args)\<close>, lines 318 to 328; \<open>now\<close> is what \<^verbatim>\<open>time()\<close> returns.\<close>

definition move :: "real \<Rightarrow> val \<Rightarrow> event \<Rightarrow> outcome" where
  "move now args =
     run [copy_attr ''px'' ''x'',
          copy_attr ''py'' ''y'',
          copy_attr ''pz'' ''z'',
          copy_attr ''psx'' ''sx'',
          copy_attr ''psy'' ''sy'',
          copy_attr ''psz'' ''sz'',
          assign ''time_update'' (VNum now),
          depack args]"

subsection \<open>scale_for_screen\<close>

text \<open>
  The tuple assignment that each rotation branch performs on the locals \<^verbatim>\<open>sx, sy\<close> (none
  for rotation 0 and for an unsupported rotation).
\<close>

definition rotated :: "real \<Rightarrow> val \<Rightarrow> val \<Rightarrow> error + val \<times> val" where
  "rotated rotation sx sy =
     (if rotation = 0 then Inr (sx, sy)
      else if rotation = 90 then
        (case py_sub (VNum 1) sx of Inl err \<Rightarrow> Inl err | Inr b \<Rightarrow> Inr (sy, b))
      else if rotation = 180 then
        (case py_sub (VNum 1) sx of
           Inl err \<Rightarrow> Inl err
         | Inr a \<Rightarrow> (case py_sub (VNum 1) sy of Inl err \<Rightarrow> Inl err | Inr b \<Rightarrow> Inr (a, b)))
      else if rotation = 270 then
        (case py_sub (VNum 1) sy of Inl err \<Rightarrow> Inl err | Inr a \<Rightarrow> Inr (a, sx))
      else Inr (sx, sy))"

text \<open>\<^verbatim>\<open>self.x = sx * float(a)\<close> followed by \<^verbatim>\<open>self.y = sy * float(b)\<close>.\<close>

definition set_xy :: "val \<Rightarrow> real \<Rightarrow> val \<Rightarrow> real \<Rightarrow> event \<Rightarrow> outcome" where
  "set_xy sx a sy b e =
     calc (py_mul_float sx a) e (\<lambda>x.
       let e1 = e(''x'' \<mapsto> x) in
       calc (py_mul_float sy b) e1 (\<lambda>y. Return (e1(''y'' \<mapsto> y))))"

text \<open>
  The \<^verbatim>\<open>if\<close>/\<^verbatim>\<open>elif\<close> chain of lines 334 to 348: each branch rebinds the locals, then
  assigns \<^verbatim>\<open>self.x\<close> and \<^verbatim>\<open>self.y\<close>; a rotation that matches no branch assigns nothing.
\<close>

definition project :: "real \<Rightarrow> real \<Rightarrow> real \<Rightarrow> val \<Rightarrow> val \<Rightarrow> event \<Rightarrow> outcome" where
  "project w h rotation sx sy e =
     (case rotated rotation sx sy of
        Inl err \<Rightarrow> Raise err e
      | Inr (sx', sy') \<Rightarrow>
         if rotation = 0 then set_xy sx' w sy' h e
         else if rotation = 90 then set_xy sx' h sy' w e
         else if rotation = 180 then set_xy sx' w sy' h e
         else if rotation = 270 then set_xy sx' h sy' w e
         else Return e)"

text \<open>
  Lines 350 and 351: \<^verbatim>\<open>if p: self.z = self.sz * float(p)\<close>. \<open>p\<close> is \<^verbatim>\<open>None\<close> or a number,
  and the test holds for a number other than zero.
\<close>

definition set_z :: "real option \<Rightarrow> event \<Rightarrow> outcome" where
  "set_z p e =
     (case p of
        None \<Rightarrow> Return e
      | Some pv \<Rightarrow>
         if pv = 0 then Return e
         else attr e ''sz'' (\<lambda>sz. calc (py_mul_float sz pv) e (\<lambda>z. Return (e(''z'' \<mapsto> z)))))"

text \<open>
  Lines 352 to 355: when \<^verbatim>\<open>ox\<close> is still \<^verbatim>\<open>None\<close>, previous and origin are seeded from
  the current screen position.
\<close>

definition seed_screen :: "event \<Rightarrow> outcome" where
  "seed_screen e =
     attr e ''ox'' (\<lambda>ox.
       if ox = VNone then
         run [copy_attr2 ''px'' ''ox'' ''x'',
              copy_attr2 ''py'' ''oy'' ''y'',
              copy_attr2 ''pz'' ''oz'' ''z''] e
       else Return e)"

text \<open>Line 362: \<^verbatim>\<open>self.pos = self.x, self.y\<close>.\<close>

definition cache_pos :: "event \<Rightarrow> outcome" where
  "cache_pos e = attr e ''x'' (\<lambda>x. attr e ''y'' (\<lambda>y. Return (e(''pos'' \<mapsto> VTuple [x, y]))))"

text \<open>
  \<^verbatim>\<open>scale_for_screen(self, w, h, p=None, rotation=0)\<close>, lines 330 to 362. \<open>w\<close>, \<open>h\<close> and
  \<open>rotation\<close> are numbers. The locals \<^verbatim>\<open>sx, sy\<close> are read first (line 333).
\<close>

definition scale_for_screen :: "real \<Rightarrow> real \<Rightarrow> real option \<Rightarrow> real \<Rightarrow> event \<Rightarrow> outcome" where
  "scale_for_screen w h p rotation e =
     attr e ''sx'' (\<lambda>sx. attr e ''sy'' (\<lambda>sy.
       run [project w h rotation sx sy,
            set_z p,
            seed_screen,
            delta_assign ''dx'' ''x'' ''px'',
            delta_assign ''dy'' ''y'' ''py'',
            delta_assign ''dz'' ''z'' ''pz'',
            cache_pos] e))"

subsection \<open>push and pop\<close>

text \<open>\<^verbatim>\<open>[getattr(self, x) for x in attrs]\<close>: a name that is not a string is a \<^verbatim>\<open>TypeError\<close>.\<close>

fun getattrs :: "event \<Rightarrow> val list \<Rightarrow> error + val list" where
  "getattrs e [] = Inr []"
| "getattrs e (a # as) =
     (case a of
        VStr n \<Rightarrow>
         (case getattr e n of
            Inl err \<Rightarrow> Inl err
          | Inr v \<Rightarrow> (case getattrs e as of Inl err \<Rightarrow> Inl err | Inr vs \<Rightarrow> Inr (v # vs)))
      | _ \<Rightarrow> Inl TypeError)"

text \<open>
  \<^verbatim>\<open>push(self, attrs=None)\<close>, lines 364 to 370. \<open>attrs\<close> is \<^verbatim>\<open>None\<close> (then
  \<^verbatim>\<open>self.push_attrs\<close> is taken) or anything the list comprehension can iterate over. The
  entry appended to the stack is the pair of \<open>attrs\<close> itself and the list of values. A
  stack that is not a list has no \<^verbatim>\<open>append\<close>.
  Python captures references; with values held by value the model agrees with the code
  as long as no captured list is mutated in place between the \<^verbatim>\<open>push\<close> and its \<^verbatim>\<open>pop\<close>
  (assigning to the attribute is not such a mutation).
\<close>

definition push_seq :: "val \<Rightarrow> event \<Rightarrow> outcome" where
  "push_seq attrs e =
     (case iter_items attrs of
        None \<Rightarrow> Raise TypeError e
      | Some names \<Rightarrow>
         (case getattrs e names of
            Inl err \<Rightarrow> Raise err e
          | Inr values \<Rightarrow>
             attr e ''push_attrs_stack'' (\<lambda>st.
               case st of
                 VList xs \<Rightarrow>
                   Return (e(''push_attrs_stack'' \<mapsto> VList (xs @ [VTuple [attrs, VList values]])))
               | _ \<Rightarrow> Raise AttributeError e)))"

definition push :: "val \<Rightarrow> event \<Rightarrow> outcome" where
  "push attrs e =
     (if attrs = VNone then attr e ''push_attrs'' (\<lambda>pa. push_seq pa e)
      else push_seq attrs e)"

text \<open>
  The loop of \<^verbatim>\<open>pop\<close>, \<^verbatim>\<open>for i in xrange(len(attrs)): setattr(self, attrs[i], values[i])\<close>,
  from index \<open>i\<close> with \<open>n\<close> rounds to go. Each round reads \<^verbatim>\<open>attrs[i]\<close>, then
  \<^verbatim>\<open>values[i]\<close>, then assigns; \<^verbatim>\<open>setattr\<close> wants a string for the name.
\<close>

fun restore :: "val \<Rightarrow> val \<Rightarrow> nat \<Rightarrow> nat \<Rightarrow> event \<Rightarrow> outcome" where
  "restore attrs values i 0 e = Return e"
| "restore attrs values i (Suc n) e =
     (case py_index attrs i of
        Inl err \<Rightarrow> Raise err e
      | Inr name \<Rightarrow>
         (case py_index values i of
            Inl err \<Rightarrow> Raise err e
          | Inr v \<Rightarrow>
             (case name of
                VStr m \<Rightarrow>
                 (case setattr e m v of
                    Inl err \<Rightarrow> Raise err e
                  | Inr e' \<Rightarrow> restore attrs values (Suc i) n e')
              | _ \<Rightarrow> Raise TypeError e)))"

text \<open>
  \<^verbatim>\<open>pop(self)\<close>, lines 372 to 377. \<^verbatim>\<open>list.pop()\<close> on an empty list raises \<^verbatim>\<open>IndexError\<close>
  before anything is assigned; otherwise the last entry is removed, unpacked into
  \<open>attrs\<close> and \<open>values\<close>, and restored. A stack that is not a list has no \<^verbatim>\<open>pop\<close>
  method, except a dictionary, whose \<^verbatim>\<open>pop\<close> wants an argument.
\<close>

definition pop :: "event \<Rightarrow> outcome" where
  "pop e =
     attr e ''push_attrs_stack'' (\<lambda>st.
       case st of
         VList xs \<Rightarrow>
           if xs = [] then Raise IndexError e
           else
             let e1 = e(''push_attrs_stack'' \<mapsto> VList (butlast xs)) in
             (case unpack2 (last xs) of
                Inl err \<Rightarrow> Raise err e1
              | Inr (attrs, values) \<Rightarrow>
                 (case py_len attrs of
                    Inl err \<Rightarrow> Raise err e1
                  | Inr n \<Rightarrow> restore attrs values 0 n e1))
       | VDict kvs \<Rightarrow> Raise TypeError e
       | _ \<Rightarrow> Raise AttributeError e)"

subsection \<open>apply_transform_2d\<close>

text \<open>
  \<^verbatim>\<open>apply_transform_2d(self, transform)\<close>, lines 379 to 387. The transform is the caller's:
  given two values it returns a value or raises. In
  \<^verbatim>\<open>self.x, self.y = self.pos = transform(self.x, self.y)\<close> the value is computed once and
  the targets are assigned left to right: it is unpacked into \<^verbatim>\<open>self.x, self.y\<close>, then
  \<^verbatim>\<open>self.pos\<close> is bound to the returned value itself.
\<close>

definition transform_pair ::
  "(val \<Rightarrow> val \<Rightarrow> error + val) \<Rightarrow> string \<Rightarrow> string \<Rightarrow> bool \<Rightarrow> event \<Rightarrow> outcome" where
  "transform_pair transform a b with_pos e =
     attr e a (\<lambda>u. attr e b (\<lambda>v.
       case transform u v of
         Inl err \<Rightarrow> Raise err e
       | Inr r \<Rightarrow>
          (case unpack2 r of
             Inl err \<Rightarrow> Raise err e
           | Inr (u', v') \<Rightarrow>
              Return (if with_pos then e(a \<mapsto> u', b \<mapsto> v', ''pos'' \<mapsto> r)
                      else e(a \<mapsto> u', b \<mapsto> v')))))"

definition apply_transform_2d :: "(val \<Rightarrow> val \<Rightarrow> error + val) \<Rightarrow> event \<Rightarrow> outcome" where
  "apply_transform_2d transform =
     run [transform_pair transform ''x'' ''y'' True,
          transform_pair transform ''px'' ''py'' False,
          transform_pair transform ''ox'' ''oy'' False,
          delta_assign ''dx'' ''x'' ''px'',
          delta_assign ''dy'' ''y'' ''py'']"

section \<open>Notions used by the properties\<close>

text \<open>
  A sequence of plain assignments \<^verbatim>\<open>self.n = v\<close> made by a caller between two method
  calls.
\<close>

fun reassign :: "(string \<times> val) list \<Rightarrow> event \<Rightarrow> event" where
  "reassign [] e = e"
| "reassign ((n, v) # rs) e = reassign rs (e(n \<mapsto> v))"

text \<open>
  The coordinates that \<^verbatim>\<open>scale_for_screen\<close> computes with are numbers: the normalized and
  the screen position, and the previous screen position once the origin is seeded.
\<close>

definition numeric :: "event \<Rightarrow> string \<Rightarrow> bool" where
  "numeric e n = (case e n of None \<Rightarrow> False | Some v \<Rightarrow> num_of v \<noteq> None)"

definition screen_ready :: "event \<Rightarrow> bool" where
  "screen_ready e =
     (numeric e ''sx'' \<and> numeric e ''sy'' \<and> numeric e ''sz'' \<and>
      numeric e ''x'' \<and> numeric e ''y'' \<and> numeric e ''z'' \<and>
      (e ''ox'' = Some VNone \<or>
       (e ''ox'' \<noteq> None \<and> numeric e ''px'' \<and> numeric e ''py'' \<and> numeric e ''pz'')))"

text \<open>
  The delta attribute \<open>d\<close> holds current minus previous: \<^verbatim>\<open>self.d == self.c - self.p\<close>,
  with the subtraction defined.
\<close>

definition delta_holds :: "event \<Rightarrow> string \<Rightarrow> string \<Rightarrow> string \<Rightarrow> bool" where
  "delta_holds e d c p =
     (case e d of
        None \<Rightarrow> False
      | Some dv \<Rightarrow>
         (case e c of
            None \<Rightarrow> False
          | Some cv \<Rightarrow> (case e p of None \<Rightarrow> False | Some pv \<Rightarrow> py_sub cv pv = Inr dv)))"

text \<open>The cached pair agrees with the current screen position: \<^verbatim>\<open>pos == (x, y)\<close>.\<close>

definition pos_consistent :: "event \<Rightarrow> bool" where
  "pos_consistent e =
     (case e ''x'' of
        None \<Rightarrow> False
      | Some x \<Rightarrow> (case e ''y'' of None \<Rightarrow> False | Some y \<Rightarrow> e ''pos'' = Some (VTuple [x, y])))"

text \<open>
  A stack entry made by a default \<^verbatim>\<open>push\<close> on an event whose cached pair was consistent:
  the names are the default push set, and the value captured for \<^verbatim>\<open>pos\<close> (the thirteenth)
  is the pair of the values captured for \<^verbatim>\<open>x\<close> and \<^verbatim>\<open>y\<close> (the first two).
\<close>

definition good_entry :: "val \<Rightarrow> bool" where
  "good_entry ent =
     (case ent of
        VTuple [a, VList vs] \<Rightarrow>
          a = VTuple (map VStr default_push_attrs) \<and> length vs = 13 \<and>
          vs ! 12 = VTuple [vs ! 0, vs ! 1]
      | _ \<Rightarrow> False)"

definition pos_inv :: "event \<Rightarrow> bool" where
  "pos_inv e =
     (pos_consistent e \<and>
      e ''push_attrs'' = Some (VTuple (map VStr default_push_attrs)) \<and>
      (case e ''push_attrs_stack'' of Some (VList st) \<Rightarrow> list_all good_entry st | _ \<Rightarrow> False))"

text \<open>A transform that returns tuples: whenever it returns, the value is a tuple.\<close>

fun is_tuple :: "val \<Rightarrow> bool" where
  "is_tuple (VTuple xs) = True"
| "is_tuple v = False"

definition returns_tuples :: "(val \<Rightarrow> val \<Rightarrow> error + val) \<Rightarrow> bool" where
  "returns_tuples transform = (\<forall>u v r. transform u v = Inr r \<longrightarrow> is_tuple r)"

text \<open>
  The events reachable from construction. A step is a call of \<^verbatim>\<open>depack\<close>, \<^verbatim>\<open>move\<close>,
  \<^verbatim>\<open>grab\<close>, \<^verbatim>\<open>ungrab\<close>, \<^verbatim>\<open>push\<close> with the default push set, \<^verbatim>\<open>pop\<close>, or
  \<^verbatim>\<open>apply_transform_2d\<close> with a transform that returns tuples, whether the call returns
  or raises (the event is then as the raising call left it); or a call of
  \<^verbatim>\<open>scale_for_screen\<close>, with any arguments, that returns.
\<close>

inductive reachable :: "event \<Rightarrow> bool" where
  r_init: "MotionEvent_init cls uniq now device ident args = Return e \<Longrightarrow> reachable e"
| r_depack: "reachable e \<Longrightarrow> reachable (state_of (depack args e))"
| r_move: "reachable e \<Longrightarrow> reachable (state_of (move now args e))"
| r_scale: "reachable e \<Longrightarrow> scale_for_screen w h p rotation e = Return e' \<Longrightarrow> reachable e'"
| r_transform:
    "reachable e \<Longrightarrow> returns_tuples transform \<Longrightarrow>
     reachable (state_of (apply_transform_2d transform e))"
| r_grab: "reachable e \<Longrightarrow> reachable (state_of (grab class_instance exclusive e))"
| r_ungrab: "reachable e \<Longrightarrow> reachable (state_of (ungrab class_instance e))"
| r_push: "reachable e \<Longrightarrow> reachable (state_of (push VNone e))"
| r_pop: "reachable e \<Longrightarrow> reachable (state_of (pop e))"

subsection \<open>Example events\<close>

text \<open>
  A freshly constructed event of a subclass that overrides nothing; the same event
  marked as a touch (as the \<^verbatim>\<open>depack\<close> of a touch provider does); the fresh event with
  the normalized position (0.5, 0.25); the event after one and after two screen
  projections, and after a \<^verbatim>\<open>move\<close> that follows them.
\<close>

definition example_event :: event where
  "example_event =
     state_of (MotionEvent_init ''MouseMotionEvent'' 0 0 (VStr ''mouse'') (VNum 1) VNone)"

definition touch_event :: event where
  "touch_event = example_event(''is_touch'' \<mapsto> VBool True)"

definition half_event :: event where
  "half_event = example_event(''sx'' \<mapsto> VNum (1 / 2), ''sy'' \<mapsto> VNum (1 / 4))"

definition scaled_event :: event where
  "scaled_event = state_of (scale_for_screen 100 100 None 0 example_event)"

definition turned_event :: event where
  "turned_event = state_of (scale_for_screen 100 100 None 180 scaled_event)"

definition moved_event :: event where
  "moved_event = state_of (move 1 VNone turned_event)"

text \<open>
  A transform: the translation by (10, 10), raising on anything but numbers. The twice
  projected event after a default \<^verbatim>\<open>push\<close>, and after a transform that follows the push.
\<close>

definition shift10 :: "val \<Rightarrow> val \<Rightarrow> error + val" where
  "shift10 u v =
     (case num_of u of
        None \<Rightarrow> Inl TypeError
      | Some a \<Rightarrow>
         (case num_of v of
            None \<Rightarrow> Inl TypeError
          | Some b \<Rightarrow> Inr (VTuple [VNum (a + 10), VNum (b + 10)])))"

definition pushed_event :: event where
  "pushed_event = state_of (push VNone turned_event)"

definition shifted_event :: event where
  "shifted_event = state_of (apply_transform_2d shift10 pushed_event)"

text \<open>The pushed event after a second \<^verbatim>\<open>push\<close>, of the stack attribute itself.\<close>

definition repushed_event :: event where
  "repushed_event = state_of (push (VList [VStr ''push_attrs_stack'']) pushed_event)"

text \<open>
  The same translation returning a list, as \<^verbatim>\<open>lambda x, y: [x + 10, y + 10]\<close>, and the
  twice projected event after it.
\<close>

definition shift10_list :: "val \<Rightarrow> val \<Rightarrow> error + val" where
  "shift10_list u v =
     (case num_of u of
        None \<Rightarrow> Inl TypeError
      | Some a \<Rightarrow>
         (case num_of v of
            None \<Rightarrow> Inl TypeError
          | Some b \<Rightarrow> Inr (VList [VNum (a + 10), VNum (b + 10)])))"

definition listed_event :: event where
  "listed_event = state_of (apply_transform_2d shift10_list turned_event)"

text \<open>
  The constant transform \<^verbatim>\<open>lambda x, y: (5, 5)\<close>, applied to the fresh event before any
  screen projection, and the event a projection that follows it leaves.
\<close>

definition const5 :: "val \<Rightarrow> val \<Rightarrow> error + val" where
  "const5 u v = Inr (VTuple [VNum 5, VNum 5])"

definition early_event :: event where
  "early_event = state_of (apply_transform_2d const5 example_event)"

definition stale_event :: event where
  "stale_event = state_of (scale_for_screen 100 100 None 0 early_event)"





section \<open>Basic facts about statements\<close>

lemma andthen_Return [simp]: "andthen (Return e) k = k e"
  by (simp add: andthen_def)

lemma andthen_Raise [simp]: "andthen (Raise err e) k = Raise err e"
  by (simp add: andthen_def)

lemma andthen_run_Nil [simp]: "andthen r (run []) = r"
  by (cases r) simp_all

lemma py_sub_num [simp]: "py_sub (VNum a) (VNum b) = Inr (VNum (a - b))"
  by (simp add: py_sub_def)

lemma run_Cons_Return:
  "run (s # ss) e = Return e' \<longleftrightarrow> (\<exists>e1. s e = Return e1 \<and> run ss e1 = Return e')"
  by (cases "s e") simp_all

lemmas stmt_defs =
  attr_def calc_def assign_def copy_attr_def copy_attr2_def delta_assign_def
  py_sub_def py_mul_float_def Let_def

lemma init_attrs_lookup [simp]:
  "init_attrs u t d i ''is_touch'' = Some (VBool False)"
  "init_attrs u t d i ''push_attrs_stack'' = Some (VList [])"
  "init_attrs u t d i ''push_attrs'' = Some (VTuple (map VStr default_push_attrs))"
  "init_attrs u t d i ''grab_list'' = Some (VList [])"
  "init_attrs u t d i ''grab_exclusive_class'' = Some VNone"
  "init_attrs u t d i ''sx'' = Some (VNum 0)"
  "init_attrs u t d i ''sy'' = Some (VNum 0)"
  "init_attrs u t d i ''sz'' = Some (VNum 0)"
  "init_attrs u t d i ''osx'' = Some VNone"
  "init_attrs u t d i ''osy'' = Some VNone"
  "init_attrs u t d i ''osz'' = Some VNone"
  "init_attrs u t d i ''psx'' = Some VNone"
  "init_attrs u t d i ''psy'' = Some VNone"
  "init_attrs u t d i ''psz'' = Some VNone"
  "init_attrs u t d i ''dsx'' = Some VNone"
  "init_attrs u t d i ''dsy'' = Some VNone"
  "init_attrs u t d i ''dsz'' = Some VNone"
  "init_attrs u t d i ''x'' = Some (VNum 0)"
  "init_attrs u t d i ''y'' = Some (VNum 0)"
  "init_attrs u t d i ''z'' = Some (VNum 0)"
  "init_attrs u t d i ''ox'' = Some VNone"
  "init_attrs u t d i ''oy'' = Some VNone"
  "init_attrs u t d i ''oz'' = Some VNone"
  "init_attrs u t d i ''px'' = Some VNone"
  "init_attrs u t d i ''py'' = Some VNone"
  "init_attrs u t d i ''pz'' = Some VNone"
  "init_attrs u t d i ''dx'' = Some VNone"
  "init_attrs u t d i ''dy'' = Some VNone"
  "init_attrs u t d i ''dz'' = Some VNone"
  "init_attrs u t d i ''pos'' = Some (VTuple [VNum 0, VNum 0])"
  "init_attrs u t d i ''time_update'' = Some (VNum t)"
  by (simp_all add: init_attrs_def)

lemma depack_init_attrs:
  "depack args (init_attrs u t d i) =
     Return ((init_attrs u t d i)
       (''psx'' \<mapsto> VNum 0, ''osx'' \<mapsto> VNum 0,
        ''psy'' \<mapsto> VNum 0, ''osy'' \<mapsto> VNum 0,
        ''psz'' \<mapsto> VNum 0, ''osz'' \<mapsto> VNum 0,
        ''dsx'' \<mapsto> VNum 0, ''dsy'' \<mapsto> VNum 0, ''dsz'' \<mapsto> VNum 0))"
  by (simp add: depack_def seed_normalized_def stmt_defs)

lemma init_returns:
  "cls \<noteq> ''MotionEvent'' \<Longrightarrow>
   MotionEvent_init cls u t d i args =
     Return ((init_attrs u t d i)
       (''psx'' \<mapsto> VNum 0, ''osx'' \<mapsto> VNum 0,
        ''psy'' \<mapsto> VNum 0, ''osy'' \<mapsto> VNum 0,
        ''psz'' \<mapsto> VNum 0, ''osz'' \<mapsto> VNum 0,
        ''dsx'' \<mapsto> VNum 0, ''dsy'' \<mapsto> VNum 0, ''dsz'' \<mapsto> VNum 0))"
  by (simp add: MotionEvent_init_def depack_init_attrs)

lemma example_event_eq:
  "example_event =
     (init_attrs 0 0 (VStr ''mouse'') (VNum 1))
       (''psx'' \<mapsto> VNum 0, ''osx'' \<mapsto> VNum 0,
        ''psy'' \<mapsto> VNum 0, ''osy'' \<mapsto> VNum 0,
        ''psz'' \<mapsto> VNum 0, ''osz'' \<mapsto> VNum 0,
        ''dsx'' \<mapsto> VNum 0, ''dsy'' \<mapsto> VNum 0, ''dsz'' \<mapsto> VNum 0)"
  by (simp add: example_event_def init_returns)

lemma example_event_lookup [simp]:
  "example_event ''is_touch'' = Some (VBool False)"
  "example_event ''push_attrs_stack'' = Some (VList [])"
  "example_event ''push_attrs'' = Some (VTuple (map VStr default_push_attrs))"
  "example_event ''grab_list'' = Some (VList [])"
  "example_event ''grab_exclusive_class'' = Some VNone"
  "example_event ''sx'' = Some (VNum 0)"
  "example_event ''sy'' = Some (VNum 0)"
  "example_event ''sz'' = Some (VNum 0)"
  "example_event ''osx'' = Some (VNum 0)"
  "example_event ''osy'' = Some (VNum 0)"
  "example_event ''osz'' = Some (VNum 0)"
  "example_event ''psx'' = Some (VNum 0)"
  "example_event ''psy'' = Some (VNum 0)"
  "example_event ''psz'' = Some (VNum 0)"
  "example_event ''dsx'' = Some (VNum 0)"
  "example_event ''dsy'' = Some (VNum 0)"
  "example_event ''dsz'' = Some (VNum 0)"
  "example_event ''x'' = Some (VNum 0)"
  "example_event ''y'' = Some (VNum 0)"
  "example_event ''z'' = Some (VNum 0)"
  "example_event ''ox'' = Some VNone"
  "example_event ''oy'' = Some VNone"
  "example_event ''oz'' = Some VNone"
  "example_event ''px'' = Some VNone"
  "example_event ''py'' = Some VNone"
  "example_event ''pz'' = Some VNone"
  "example_event ''dx'' = Some VNone"
  "example_event ''dy'' = Some VNone"
  "example_event ''dz'' = Some VNone"
  "example_event ''pos'' = Some (VTuple [VNum 0, VNum 0])"
  "example_event ''time_update'' = Some (VNum 0)"
  by (simp_all add: example_event_eq)

section \<open>The example events\<close>

text \<open>The projections of the example events, evaluated.\<close>

lemmas scale_defs =
  scale_for_screen_def project_def rotated_def set_xy_def set_z_def seed_screen_def cache_pos_def

lemma screen_ready_example [simp]: "screen_ready example_event"
  by (simp add: screen_ready_def numeric_def)

lemma half_event_lookup [simp]:
  "half_event ''sx'' = Some (VNum (1 / 2))"
  "half_event ''sy'' = Some (VNum (1 / 4))"
  "screen_ready half_event"
  by (simp_all add: half_event_def screen_ready_def numeric_def)

lemma scaled_event_lookup [simp]:
  "scaled_event ''x'' = Some (VNum 0)"
  "scaled_event ''y'' = Some (VNum 0)"
  "scaled_event ''z'' = Some (VNum 0)"
  "scaled_event ''sx'' = Some (VNum 0)"
  "scaled_event ''sy'' = Some (VNum 0)"
  "scaled_event ''sz'' = Some (VNum 0)"
  "scaled_event ''px'' = Some (VNum 0)"
  "scaled_event ''py'' = Some (VNum 0)"
  "scaled_event ''pz'' = Some (VNum 0)"
  "scaled_event ''ox'' = Some (VNum 0)"
  "scaled_event ''oy'' = Some (VNum 0)"
  "scaled_event ''oz'' = Some (VNum 0)"
  "scaled_event ''osx'' = Some (VNum 0)"
  "scaled_event ''osy'' = Some (VNum 0)"
  "scaled_event ''osz'' = Some (VNum 0)"
  "scaled_event ''dx'' = Some (VNum 0)"
  "scaled_event ''dy'' = Some (VNum 0)"
  "scaled_event ''dz'' = Some (VNum 0)"
  "scaled_event ''pos'' = Some (VTuple [VNum 0, VNum 0])"
  "scaled_event ''push_attrs'' = Some (VTuple (map VStr default_push_attrs))"
  "scaled_event ''push_attrs_stack'' = Some (VList [])"
  by (simp_all add: scaled_event_def scale_defs stmt_defs)

lemma scaled_event_returns: "scale_for_screen 100 100 None 0 example_event = Return scaled_event"
  by (simp add: scaled_event_def scale_defs stmt_defs)

lemma turned_event_returns: "scale_for_screen 100 100 None 180 scaled_event = Return turned_event"
  by (simp add: turned_event_def scale_defs stmt_defs)

lemma turned_event_lookup [simp]:
  "turned_event ''x'' = Some (VNum 100)"
  "turned_event ''y'' = Some (VNum 100)"
  "turned_event ''z'' = Some (VNum 0)"
  "turned_event ''sx'' = Some (VNum 0)"
  "turned_event ''sy'' = Some (VNum 0)"
  "turned_event ''sz'' = Some (VNum 0)"
  "turned_event ''px'' = Some (VNum 0)"
  "turned_event ''py'' = Some (VNum 0)"
  "turned_event ''pz'' = Some (VNum 0)"
  "turned_event ''ox'' = Some (VNum 0)"
  "turned_event ''oy'' = Some (VNum 0)"
  "turned_event ''oz'' = Some (VNum 0)"
  "turned_event ''osx'' = Some (VNum 0)"
  "turned_event ''osy'' = Some (VNum 0)"
  "turned_event ''osz'' = Some (VNum 0)"
  "turned_event ''dx'' = Some (VNum 100)"
  "turned_event ''dy'' = Some (VNum 100)"
  "turned_event ''dz'' = Some (VNum 0)"
  "turned_event ''pos'' = Some (VTuple [VNum 100, VNum 100])"
  "turned_event ''push_attrs'' = Some (VTuple (map VStr default_push_attrs))"
  "turned_event ''push_attrs_stack'' = Some (VList [])"
  by (simp_all add: turned_event_def scale_defs stmt_defs)

lemma unpack2_pair [simp]:
  "unpack2 (VTuple [a, b]) = Inr (a, b)"
  "unpack2 (VList [a, b]) = Inr (a, b)"
  by (simp_all add: unpack2_def)

lemma shift10_num [simp]:
  "shift10 (VNum a) (VNum b) = Inr (VTuple [VNum (a + 10), VNum (b + 10)])"
  by (simp add: shift10_def)

section \<open>Frame reasoning\<close>

lemma run_keeps_inv:
  assumes "P e"
    and "\<And>s e. s \<in> set ss \<Longrightarrow> P e \<Longrightarrow> P (state_of (s e)) \<and> state_of (s e) n = e n"
  shows "P (state_of (run ss e)) \<and> state_of (run ss e) n = e n"
  using assms
proof (induction ss arbitrary: e)
  case Nil
  then show ?case by simp
next
  case (Cons s ss)
  have step: "P (state_of (s e)) \<and> state_of (s e) n = e n"
    using Cons.prems by simp
  show ?case
  proof (cases "s e")
    case (Return e1)
    with step have "P e1" and e1: "e1 n = e n" by simp_all
    with Cons.IH [of e1] Cons.prems(2)
    have "P (state_of (run ss e1)) \<and> state_of (run ss e1) n = e1 n" by simp
    with Return e1 show ?thesis by simp
  next
    case (Raise err e1)
    with step show ?thesis by simp
  qed
qed

lemma run_keeps:
  assumes "\<And>s e. s \<in> set ss \<Longrightarrow> state_of (s e) n = e n"
  shows "state_of (run ss e) n = e n"
  using run_keeps_inv [of "\<lambda>_. True" e ss n] assms by simp

lemma copy_attr_keeps: "n \<noteq> dst \<Longrightarrow> state_of (copy_attr dst src e) n = e n"
  by (simp add: copy_attr_def attr_def split: option.splits)

lemma copy_attr2_keeps: "n \<noteq> d1 \<Longrightarrow> n \<noteq> d2 \<Longrightarrow> state_of (copy_attr2 d1 d2 src e) n = e n"
  by (simp add: copy_attr2_def attr_def split: option.splits)

lemma delta_assign_keeps: "n \<noteq> d \<Longrightarrow> state_of (delta_assign d a b e) n = e n"
  by (simp add: delta_assign_def attr_def calc_def split: option.splits sum.splits)

lemma assign_keeps: "n \<noteq> d \<Longrightarrow> state_of (assign d v e) n = e n"
  by (simp add: assign_def)

lemma set_xy_keeps: "n \<noteq> ''x'' \<Longrightarrow> n \<noteq> ''y'' \<Longrightarrow> state_of (set_xy sx a sy b e) n = e n"
  by (simp add: set_xy_def calc_def Let_def split: sum.splits)

lemma project_keeps:
  "n \<noteq> ''x'' \<Longrightarrow> n \<noteq> ''y'' \<Longrightarrow> state_of (project w h rotation sx sy e) n = e n"
  by (simp add: project_def set_xy_keeps split: sum.splits prod.splits)

lemma project_unsupported:
  "rotation \<notin> {0, 90, 180, 270} \<Longrightarrow> project w h rotation sx sy e = Return e"
  by (simp add: project_def rotated_def)

lemma seed_normalized_keeps:
  assumes "n \<notin> {''psx'', ''osx'', ''psy'', ''osy'', ''psz'', ''osz''}"
  shows "state_of (seed_normalized e) n = e n"
proof -
  have "state_of (run [copy_attr2 ''psx'' ''osx'' ''sx'',
                 copy_attr2 ''psy'' ''osy'' ''sy'',
                 copy_attr2 ''psz'' ''osz'' ''sz''] e) n = e n"
    using assms by (intro run_keeps) (auto simp: copy_attr2_keeps)
  then show ?thesis
    by (simp add: seed_normalized_def attr_def split: option.splits)
qed

lemma seed_normalized_skip:
  "e ''osx'' = Some v \<Longrightarrow> v \<noteq> VNone \<Longrightarrow> seed_normalized e = Return e"
  by (simp add: seed_normalized_def attr_def)

lemma seed_screen_keeps:
  assumes "n \<notin> {''px'', ''ox'', ''py'', ''oy'', ''pz'', ''oz''}"
  shows "state_of (seed_screen e) n = e n"
proof -
  have "state_of (run [copy_attr2 ''px'' ''ox'' ''x'',
                 copy_attr2 ''py'' ''oy'' ''y'',
                 copy_attr2 ''pz'' ''oz'' ''z''] e) n = e n"
    using assms by (intro run_keeps) (auto simp: copy_attr2_keeps)
  then show ?thesis
    by (simp add: seed_screen_def attr_def split: option.splits)
qed


lemma set_z_keeps: "n \<noteq> ''z'' \<Longrightarrow> state_of (set_z p e) n = e n"
  by (simp add: set_z_def attr_def calc_def split: option.splits sum.splits)

lemma cache_pos_keeps: "n \<noteq> ''pos'' \<Longrightarrow> state_of (cache_pos e) n = e n"
  by (simp add: cache_pos_def attr_def split: option.splits)

lemma depack_keeps:
  assumes "n \<notin> {''psx'', ''osx'', ''psy'', ''osy'', ''psz'', ''osz'', ''dsx'', ''dsy'', ''dsz''}"
  shows "state_of (depack args e) n = e n"
  unfolding depack_def using assms
  by (intro run_keeps) (auto simp: seed_normalized_keeps delta_assign_keeps)


lemma move_keeps:
  assumes "n \<notin> {''px'', ''py'', ''pz'', ''psx'', ''psy'', ''psz'', ''time_update'',
                 ''osx'', ''osy'', ''osz'', ''dsx'', ''dsy'', ''dsz''}"
  shows "state_of (move now args e) n = e n"
  unfolding move_def using assms
  by (intro run_keeps) (auto simp: copy_attr_keeps assign_keeps depack_keeps)


lemma scale_for_screen_keeps:
  assumes "n \<notin> {''x'', ''y'', ''z'', ''px'', ''ox'', ''py'', ''oy'', ''pz'', ''oz'',
                 ''dx'', ''dy'', ''dz'', ''pos''}"
  shows "state_of (scale_for_screen w h p rotation e) n = e n"
proof -
  have "state_of (run [project w h rotation sx sy, set_z p, seed_screen,
            delta_assign ''dx'' ''x'' ''px'', delta_assign ''dy'' ''y'' ''py'',
            delta_assign ''dz'' ''z'' ''pz'', cache_pos] e) n = e n" for sx sy
    using assms
    by (intro run_keeps)
       (auto simp: project_keeps set_z_keeps seed_screen_keeps delta_assign_keeps cache_pos_keeps)
  then show ?thesis
    by (simp add: scale_for_screen_def attr_def split: option.splits)
qed


lemma transform_pair_keeps:
  "n \<noteq> a \<Longrightarrow> n \<noteq> b \<Longrightarrow> n \<noteq> ''pos'' \<or> \<not> with_pos \<Longrightarrow>
   state_of (transform_pair f a b with_pos e) n = e n"
  by (auto simp: transform_pair_def attr_def split: option.splits sum.splits prod.splits)

lemma apply_transform_2d_keeps:
  assumes "n \<notin> {''x'', ''y'', ''pos'', ''px'', ''py'', ''ox'', ''oy'', ''dx'', ''dy''}"
  shows "state_of (apply_transform_2d f e) n = e n"
  unfolding apply_transform_2d_def using assms
  by (intro run_keeps) (auto simp: transform_pair_keeps delta_assign_keeps)

lemma grab_keeps:
  "n \<noteq> ''grab_exclusive_class'' \<Longrightarrow> n \<noteq> ''grab_list'' \<Longrightarrow> state_of (grab c ex e) n = e n"
  by (simp add: grab_def attr_def Let_def split: option.splits val.splits)

lemma ungrab_keeps:
  "n \<noteq> ''grab_exclusive_class'' \<Longrightarrow> n \<noteq> ''grab_list'' \<Longrightarrow> state_of (ungrab c e) n = e n"
  by (simp add: ungrab_def attr_def Let_def split: option.splits val.splits sum.splits bool.splits)



section \<open>Grab\<close>

text \<open>
  Claim C1. \<^verbatim>\<open>grab(c, exclusive)\<close> raises \<open>NotGrabbable\<close> when \<^verbatim>\<open>is_touch\<close> is false;
  on a touch it raises \<open>AlreadyExclusive\<close> when an exclusive claimant is recorded
  (\<^verbatim>\<open>grab_exclusive_class\<close> is not \<^verbatim>\<open>None\<close>); otherwise it appends the weak reference to
  \<open>c\<close> at the end of \<^verbatim>\<open>grab_list\<close>, whatever the list already holds, and records it as
  the exclusive claimant when \<open>exclusive\<close> is true. A failed call leaves the event as it
  was. In particular, after an exclusive grab has returned, every further grab, exclusive
  or not, by the same or another claimant, raises \<open>AlreadyExclusive\<close>.
\<close>

theorem grab_spec:
  "(e ''is_touch'' = Some t \<and> \<not> truthy t \<longrightarrow> grab c ex e = Raise NotGrabbable e) \<and>
   (e ''is_touch'' = Some t \<and> truthy t \<and> e ''grab_exclusive_class'' = Some x \<and> x \<noteq> VNone \<longrightarrow>
      grab c ex e = Raise AlreadyExclusive e) \<and>
   (e ''is_touch'' = Some t \<and> truthy t \<and> e ''grab_exclusive_class'' = Some VNone \<and>
    e ''grab_list'' = Some (VList gl) \<longrightarrow>
      grab c ex e =
        Return (if ex then e(''grab_exclusive_class'' \<mapsto> VRef c, ''grab_list'' \<mapsto> VList (gl @ [VRef c]))
                else e(''grab_list'' \<mapsto> VList (gl @ [VRef c])))) \<and>
   (grab c True e = Return e1 \<longrightarrow> grab c' ex' e1 = Raise AlreadyExclusive e1)"
proof (intro conjI impI)
  assume "e ''is_touch'' = Some t \<and> \<not> truthy t"
  then show "grab c ex e = Raise NotGrabbable e"
    by (simp add: grab_def attr_def)
next
  assume "e ''is_touch'' = Some t \<and> truthy t \<and> e ''grab_exclusive_class'' = Some x \<and> x \<noteq> VNone"
  then show "grab c ex e = Raise AlreadyExclusive e"
    by (simp add: grab_def attr_def)
next
  assume "e ''is_touch'' = Some t \<and> truthy t \<and> e ''grab_exclusive_class'' = Some VNone \<and>
    e ''grab_list'' = Some (VList gl)"
  then show "grab c ex e =
        Return (if ex then e(''grab_exclusive_class'' \<mapsto> VRef c, ''grab_list'' \<mapsto> VList (gl @ [VRef c]))
                else e(''grab_list'' \<mapsto> VList (gl @ [VRef c])))"
    by (simp add: grab_def attr_def Let_def)
next
  assume g: "grab c True e = Return e1"
  then obtain t gl where t: "e ''is_touch'' = Some t" "truthy t"
    and x: "e ''grab_exclusive_class'' = Some VNone"
    and gl: "e ''grab_list'' = Some (VList gl)"
    by (auto simp: grab_def attr_def Let_def split: option.splits if_splits val.splits)
  with g have "e1 = e(''grab_exclusive_class'' \<mapsto> VRef c, ''grab_list'' \<mapsto> VList (gl @ [VRef c]))"
    by (simp add: grab_def attr_def Let_def)
  with t show "grab c' ex' e1 = Raise AlreadyExclusive e1"
    by (simp add: grab_def attr_def)
qed

theorem grab_spec_witness:
  "grab 7 False example_event = Raise NotGrabbable example_event \<and>
   grab 7 True touch_event =
     Return (touch_event(''grab_exclusive_class'' \<mapsto> VRef 7, ''grab_list'' \<mapsto> VList [VRef 7])) \<and>
   grab 7 True (touch_event(''grab_exclusive_class'' \<mapsto> VRef 7, ''grab_list'' \<mapsto> VList [VRef 7])) =
     Raise AlreadyExclusive (touch_event(''grab_exclusive_class'' \<mapsto> VRef 7, ''grab_list'' \<mapsto> VList [VRef 7])) \<and>
   grab 8 False (touch_event(''grab_exclusive_class'' \<mapsto> VRef 7, ''grab_list'' \<mapsto> VList [VRef 7])) =
     Raise AlreadyExclusive (touch_event(''grab_exclusive_class'' \<mapsto> VRef 7, ''grab_list'' \<mapsto> VList [VRef 7])) \<and>
   grab 8 False (touch_event(''grab_list'' \<mapsto> VList [VRef 7])) =
     Return (touch_event(''grab_list'' \<mapsto> VList [VRef 7, VRef 8]))"
proof -
  let ?ex = "touch_event(''grab_exclusive_class'' \<mapsto> VRef 7, ''grab_list'' \<mapsto> VList [VRef 7])"
  have a: "grab 7 False example_event = Raise NotGrabbable example_event"
    using grab_spec [of example_event "VBool False" 7 False] by simp
  have b: "grab 7 True touch_event = Return ?ex"
    using grab_spec [of touch_event "VBool True" 7 True VNone "[]"] by (simp add: touch_event_def)
  have c: "grab 7 True ?ex = Raise AlreadyExclusive ?ex"
    using grab_spec [of ?ex "VBool True" 7 True "VRef 7"] by (simp add: touch_event_def)
  have d: "grab 8 False ?ex = Raise AlreadyExclusive ?ex"
    using b grab_spec [of touch_event _ 7 _ _ _ ?ex 8 False] by simp
  have e: "grab 8 False (touch_event(''grab_list'' \<mapsto> VList [VRef 7])) =
     Return (touch_event(''grab_list'' \<mapsto> VList [VRef 7, VRef 8]))"
    using grab_spec [of "touch_event(''grab_list'' \<mapsto> VList [VRef 7])" "VBool True" 8 False VNone "[VRef 7]"]
    by (simp add: touch_event_def)
  from a b c d e show ?thesis by blast
qed

section \<open>The snapshot stack\<close>

text \<open>
  Claim C7. \<^verbatim>\<open>pop()\<close> on an event whose snapshot stack is empty raises \<^verbatim>\<open>IndexError\<close>
  (the specification's \<open>EmptyStackUnderflow\<close>), and the event after the failed call is the
  event before it: every attribute, the empty stack included, is unchanged.
\<close>

theorem pop_empty_stack:
  "e ''push_attrs_stack'' = Some (VList []) \<Longrightarrow> pop e = Raise EmptyStackUnderflow e"
  by (simp add: pop_def attr_def)

theorem pop_empty_stack_witness:
  "example_event ''push_attrs_stack'' = Some (VList []) \<and>
   pop example_event = Raise EmptyStackUnderflow example_event"
  using pop_empty_stack [of example_event] by simp

section \<open>Screen projection\<close>

lemma scale_tail_keeps_xy:
  assumes "n = ''x'' \<or> n = ''y''"
  shows "state_of (run [set_z p, seed_screen,
            delta_assign ''dx'' ''x'' ''px'', delta_assign ''dy'' ''y'' ''py'',
            delta_assign ''dz'' ''z'' ''pz'', cache_pos] e) n = e n"
  using assms
  by (intro run_keeps)
     (auto simp: set_z_keeps seed_screen_keeps delta_assign_keeps cache_pos_keeps)

lemma scale_for_screen_xy:
  assumes "e ''sx'' = Some sx" "e ''sy'' = Some sy"
    and "project w h rotation sx sy e = Return e1"
    and "n = ''x'' \<or> n = ''y''"
  shows "state_of (scale_for_screen w h p rotation e) n = e1 n"
  using assms(1,2,3) scale_tail_keeps_xy [OF assms(4), of p e1]
  by (simp add: scale_for_screen_def attr_def)

text \<open>On an event whose coordinates are numbers the projection returns, whatever the rotation.\<close>

lemma numericE: "numeric e n \<Longrightarrow> (\<And>v r. e n = Some v \<Longrightarrow> num_of v = Some r \<Longrightarrow> thesis) \<Longrightarrow> thesis"
  by (auto simp: numeric_def split: option.splits)

lemma scale_for_screen_returns:
  assumes "screen_ready e"
  shows "returns (scale_for_screen w h p rotation e)"
proof -
  from assms obtain vsx a vsy b vsz c vx x vy y vz z where
    sx: "e ''sx'' = Some vsx" "num_of vsx = Some a" and
    sy: "e ''sy'' = Some vsy" "num_of vsy = Some b" and
    sz: "e ''sz'' = Some vsz" "num_of vsz = Some c" and
    x: "e ''x'' = Some vx" "num_of vx = Some x" and
    y: "e ''y'' = Some vy" "num_of vy = Some y" and
    z: "e ''z'' = Some vz" "num_of vz = Some z"
    unfolding screen_ready_def by (auto elim!: numericE)
  show ?thesis
  proof (cases "e ''ox'' = Some VNone")
    case True
    with sx sy sz x y z show ?thesis
      by (simp add: scale_defs stmt_defs split: option.splits)
  next
    case False
    with assms obtain vo vpx px' vpy py' vpz pz' where
      "e ''ox'' = Some vo" "vo \<noteq> VNone"
      "e ''px'' = Some vpx" "num_of vpx = Some px'"
      "e ''py'' = Some vpy" "num_of vpy = Some py'"
      "e ''pz'' = Some vpz" "num_of vpz = Some pz'"
      unfolding screen_ready_def by (auto elim!: numericE)
    with sx sy sz x y z show ?thesis
      by (simp add: scale_defs stmt_defs split: option.splits)
  qed
qed

text \<open>
  Claim C2. The rotation table of \<^verbatim>\<open>scale_for_screen\<close>: with rotation 0 the screen
  position is \<open>(sx * w, sy * h)\<close>; for \<open>sx = 0.5\<close>, \<open>sy = 0.25\<close>, \<open>w = 200\<close>, \<open>h = 100\<close> and
  rotation 90 the branch rebinds the locals to \<open>(0.25, 0.5)\<close> and the screen position
  is \<open>x = 0.25 * 100 = 25\<close>, \<open>y = 0.5 * 200 = 100\<close>. The values are those of the event
  when the call ends; on an event whose coordinates are numbers the call returns.
\<close>

theorem scale_for_screen_rotation_table:
  "(e ''sx'' = Some (VNum a) \<and> e ''sy'' = Some (VNum b) \<longrightarrow>
      state_of (scale_for_screen w h p 0 e) ''x'' = Some (VNum (a * w)) \<and>
      state_of (scale_for_screen w h p 0 e) ''y'' = Some (VNum (b * h))) \<and>
   rotated 90 (VNum (1 / 2)) (VNum (1 / 4)) = Inr (VNum (1 / 4), VNum (1 / 2)) \<and>
   (e ''sx'' = Some (VNum (1 / 2)) \<and> e ''sy'' = Some (VNum (1 / 4)) \<longrightarrow>
      state_of (scale_for_screen 200 100 p 90 e) ''x'' = Some (VNum 25) \<and>
      state_of (scale_for_screen 200 100 p 90 e) ''y'' = Some (VNum 100)) \<and>
   (screen_ready e \<longrightarrow> returns (scale_for_screen w h p rotation e))"
proof (intro conjI impI)
  assume h: "e ''sx'' = Some (VNum a) \<and> e ''sy'' = Some (VNum b)"
  have "project w h 0 (VNum a) (VNum b) e = Return (e(''x'' \<mapsto> VNum (a * w), ''y'' \<mapsto> VNum (b * h)))"
    by (simp add: project_def rotated_def set_xy_def stmt_defs)
  with h show "state_of (scale_for_screen w h p 0 e) ''x'' = Some (VNum (a * w))"
    and "state_of (scale_for_screen w h p 0 e) ''y'' = Some (VNum (b * h))"
    by (simp_all add: scale_for_screen_xy)
next
  show "rotated 90 (VNum (1 / 2)) (VNum (1 / 4)) = Inr (VNum (1 / 4), VNum (1 / 2))"
    by (simp add: rotated_def py_sub_def)
next
  assume h: "e ''sx'' = Some (VNum (1 / 2)) \<and> e ''sy'' = Some (VNum (1 / 4))"
  have "project 200 100 90 (VNum (1 / 2)) (VNum (1 / 4)) e =
          Return (e(''x'' \<mapsto> VNum 25, ''y'' \<mapsto> VNum 100))"
    by (simp add: project_def rotated_def set_xy_def stmt_defs)
  with h show "state_of (scale_for_screen 200 100 p 90 e) ''x'' = Some (VNum 25)"
    and "state_of (scale_for_screen 200 100 p 90 e) ''y'' = Some (VNum 100)"
    by (simp_all add: scale_for_screen_xy)
next
  assume "screen_ready e"
  then show "returns (scale_for_screen w h p rotation e)"
    by (rule scale_for_screen_returns)
qed

theorem scale_for_screen_rotation_table_witness:
  "returns (scale_for_screen 200 100 None 0 half_event) \<and>
   state_of (scale_for_screen 200 100 None 0 half_event) ''x'' = Some (VNum 100) \<and>
   state_of (scale_for_screen 200 100 None 0 half_event) ''y'' = Some (VNum 25) \<and>
   returns (scale_for_screen 200 100 None 90 half_event) \<and>
   state_of (scale_for_screen 200 100 None 90 half_event) ''x'' = Some (VNum 25) \<and>
   state_of (scale_for_screen 200 100 None 90 half_event) ''y'' = Some (VNum 100)"
  using scale_for_screen_rotation_table [of half_event "1 / 2" "1 / 4" 200 100 None 0]
        scale_for_screen_rotation_table [of half_event "1 / 2" "1 / 4" 200 100 None 90]
  by simp

text \<open>
  Claim C9. For a rotation other than 0, 90, 180 and 270, \<^verbatim>\<open>scale_for_screen\<close> assigns
  neither \<^verbatim>\<open>x\<close> nor \<^verbatim>\<open>y\<close>: when the call ends they hold the values they had before it.
  The call raises no error: on an event whose coordinates are numbers it returns.
\<close>

theorem scale_for_screen_unsupported_rotation:
  "rotation \<notin> {0, 90, 180, 270} \<longrightarrow>
     state_of (scale_for_screen w h p rotation e) ''x'' = e ''x'' \<and>
     state_of (scale_for_screen w h p rotation e) ''y'' = e ''y'' \<and>
     (screen_ready e \<longrightarrow> returns (scale_for_screen w h p rotation e))"
proof (intro impI conjI)
  assume r: "rotation \<notin> {0, 90, 180, 270}"
  have keep: "state_of (scale_for_screen w h p rotation e) n = e n" if n: "n = ''x'' \<or> n = ''y''" for n
  proof (cases "e ''sx''")
    case None
    then show ?thesis by (simp add: scale_for_screen_def attr_def)
  next
    case sx: (Some sx)
    show ?thesis
    proof (cases "e ''sy''")
      case None
      with sx show ?thesis by (simp add: scale_for_screen_def attr_def)
    next
      case (Some sy)
      with sx r n show ?thesis
        by (simp add: scale_for_screen_xy [where ?e1.0 = e] project_unsupported)
    qed
  qed
  show "state_of (scale_for_screen w h p rotation e) ''x'' = e ''x''"
    and "state_of (scale_for_screen w h p rotation e) ''y'' = e ''y''"
    by (simp_all add: keep)
next
  assume "screen_ready e"
  then show "returns (scale_for_screen w h p rotation e)"
    by (rule scale_for_screen_returns)
qed

theorem scale_for_screen_unsupported_rotation_witness:
  "(45 :: real) \<notin> {0, 90, 180, 270} \<and> screen_ready example_event \<and>
   returns (scale_for_screen 100 100 None 45 example_event) \<and>
   state_of (scale_for_screen 100 100 None 45 example_event) ''x'' = Some (VNum 0) \<and>
   state_of (scale_for_screen 100 100 None 45 example_event) ''y'' = Some (VNum 0)"
  using scale_for_screen_unsupported_rotation [of 45 100 100 None example_event]
  by simp

section \<open>Construction\<close>





section \<open>Move\<close>

lemma depack_later:
  assumes "e ''osx'' = Some v" "v \<noteq> VNone"
    and "e ''sx'' = Some sx" "e ''psx'' = Some psx" "py_sub sx psx = Inr dsx"
    and "e ''sy'' = Some sy" "e ''psy'' = Some psy" "py_sub sy psy = Inr dsy"
    and "e ''sz'' = Some sz" "e ''psz'' = Some psz" "py_sub sz psz = Inr dsz"
  shows "depack args e = Return (e(''dsx'' \<mapsto> dsx, ''dsy'' \<mapsto> dsy, ''dsz'' \<mapsto> dsz))"
  using assms by (simp add: depack_def seed_normalized_skip attr_def calc_def delta_assign_def)

lemma move_effect:
  assumes "e ''x'' = Some x" "e ''y'' = Some y" "e ''z'' = Some z"
    and "e ''sx'' = Some (VNum a)" "e ''sy'' = Some (VNum b)" "e ''sz'' = Some (VNum c)"
    and "e ''osx'' = Some v" "v \<noteq> VNone"
  shows "move now args e =
     Return (e(''px'' \<mapsto> x, ''py'' \<mapsto> y, ''pz'' \<mapsto> z,
               ''psx'' \<mapsto> VNum a, ''psy'' \<mapsto> VNum b, ''psz'' \<mapsto> VNum c,
               ''time_update'' \<mapsto> VNum now,
               ''dsx'' \<mapsto> VNum 0, ''dsy'' \<mapsto> VNum 0, ''dsz'' \<mapsto> VNum 0))"
proof -
  let ?e = "e(''px'' \<mapsto> x, ''py'' \<mapsto> y, ''pz'' \<mapsto> z,
               ''psx'' \<mapsto> VNum a, ''psy'' \<mapsto> VNum b, ''psz'' \<mapsto> VNum c,
               ''time_update'' \<mapsto> VNum now)"
  have "move now args e = depack args ?e"
    using assms by (simp add: move_def copy_attr_def assign_def attr_def)
  also have "\<dots> = Return (?e(''dsx'' \<mapsto> VNum 0, ''dsy'' \<mapsto> VNum 0, ''dsz'' \<mapsto> VNum 0))"
    by (rule depack_later [where v = v and sx = "VNum a" and psx = "VNum a"
          and sy = "VNum b" and psy = "VNum b" and sz = "VNum c" and psz = "VNum c"])
       (simp_all add: assms)
  finally show ?thesis .
qed

lemma moved_event_eq:
  "moved_event = turned_event(''px'' \<mapsto> VNum 100, ''py'' \<mapsto> VNum 100, ''pz'' \<mapsto> VNum 0,
               ''psx'' \<mapsto> VNum 0, ''psy'' \<mapsto> VNum 0, ''psz'' \<mapsto> VNum 0,
               ''time_update'' \<mapsto> VNum 1,
               ''dsx'' \<mapsto> VNum 0, ''dsy'' \<mapsto> VNum 0, ''dsz'' \<mapsto> VNum 0)"
proof -
  have "move 1 VNone turned_event =
     Return (turned_event(''px'' \<mapsto> VNum 100, ''py'' \<mapsto> VNum 100, ''pz'' \<mapsto> VNum 0,
               ''psx'' \<mapsto> VNum 0, ''psy'' \<mapsto> VNum 0, ''psz'' \<mapsto> VNum 0,
               ''time_update'' \<mapsto> VNum 1,
               ''dsx'' \<mapsto> VNum 0, ''dsy'' \<mapsto> VNum 0, ''dsz'' \<mapsto> VNum 0))"
    by (rule move_effect [where v = "VNum 0"]) simp_all
  then show ?thesis
    by (simp add: moved_event_def)
qed

lemma moved_event_returns: "move 1 VNone turned_event = Return moved_event"
  unfolding moved_event_eq
  by (rule move_effect [where v = "VNum 0"]) simp_all

lemma moved_event_lookup [simp]:
  "moved_event ''x'' = Some (VNum 100)"
  "moved_event ''y'' = Some (VNum 100)"
  "moved_event ''z'' = Some (VNum 0)"
  "moved_event ''sx'' = Some (VNum 0)"
  "moved_event ''sy'' = Some (VNum 0)"
  "moved_event ''sz'' = Some (VNum 0)"
  "moved_event ''px'' = Some (VNum 100)"
  "moved_event ''py'' = Some (VNum 100)"
  "moved_event ''pz'' = Some (VNum 0)"
  "moved_event ''ox'' = Some (VNum 0)"
  "moved_event ''oy'' = Some (VNum 0)"
  "moved_event ''dx'' = Some (VNum 100)"
  "moved_event ''dy'' = Some (VNum 100)"
  "moved_event ''dz'' = Some (VNum 0)"
  by (simp_all add: moved_event_eq)

text \<open>What the statement \<^verbatim>\<open>self.d = self.c - self.p\<close> establishes when it returns.\<close>

lemma delta_assign_Return:
  assumes "delta_assign d c p e = Return e'" "d \<noteq> c" "d \<noteq> p"
  shows "delta_holds e' d c p"
  using assms
  by (auto simp: delta_assign_def attr_def calc_def delta_holds_def
      split: option.splits sum.splits)

lemma delta_holds_cong:
  "e' d = e d \<Longrightarrow> e' c = e c \<Longrightarrow> e' p = e p \<Longrightarrow> delta_holds e' d c p = delta_holds e d c p"
  by (simp add: delta_holds_def split: option.splits)

text \<open>The last four statements of \<^verbatim>\<open>scale_for_screen\<close>, and the last two of \<^verbatim>\<open>apply_transform_2d\<close>.\<close>

lemma delta_tail_Return:
  assumes "run [delta_assign ''dx'' ''x'' ''px'', delta_assign ''dy'' ''y'' ''py''] e = Return e'"
  shows "delta_holds e' ''dx'' ''x'' ''px''" "delta_holds e' ''dy'' ''y'' ''py''"
proof -
  from assms obtain e1 where
    1: "delta_assign ''dx'' ''x'' ''px'' e = Return e1" and
    2: "delta_assign ''dy'' ''y'' ''py'' e1 = Return e'"
    unfolding run_Cons_Return by auto
  have k: "e' n = e1 n" if "n \<noteq> ''dy''" for n
    using delta_assign_keeps [of n "''dy''" "''y''" "''py''" e1] that 2 by simp
  from 1 have "delta_holds e1 ''dx'' ''x'' ''px''"
    by (rule delta_assign_Return) simp_all
  then show "delta_holds e' ''dx'' ''x'' ''px''"
    by (simp add: k delta_holds_cong [of e' _ e1])
  from 2 show "delta_holds e' ''dy'' ''y'' ''py''"
    by (rule delta_assign_Return) simp_all
qed

lemma scale_for_screen_delta:
  assumes "scale_for_screen w h p rotation e = Return e'"
  shows "delta_holds e' ''dx'' ''x'' ''px''" "delta_holds e' ''dy'' ''y'' ''py''"
    "delta_holds e' ''dz'' ''z'' ''pz''"
proof -
  from assms obtain sx sy where
    "run [project w h rotation sx sy, set_z p, seed_screen,
          delta_assign ''dx'' ''x'' ''px'', delta_assign ''dy'' ''y'' ''py'',
          delta_assign ''dz'' ''z'' ''pz'', cache_pos] e = Return e'"
    by (auto simp: scale_for_screen_def attr_def split: option.splits)
  then obtain e3 e4 e5 e6 where
    1: "delta_assign ''dx'' ''x'' ''px'' e3 = Return e4" and
    2: "delta_assign ''dy'' ''y'' ''py'' e4 = Return e5" and
    3: "delta_assign ''dz'' ''z'' ''pz'' e5 = Return e6" and
    4: "cache_pos e6 = Return e'"
    unfolding run_Cons_Return by auto
  have k2: "e5 n = e4 n" if "n \<noteq> ''dy''" for n
    using delta_assign_keeps [of n "''dy''" "''y''" "''py''" e4] that 2 by simp
  have k3: "e6 n = e5 n" if "n \<noteq> ''dz''" for n
    using delta_assign_keeps [of n "''dz''" "''z''" "''pz''" e5] that 3 by simp
  have k4: "e' n = e6 n" if "n \<noteq> ''pos''" for n
    using cache_pos_keeps [of n e6] that 4 by simp
  from 1 have "delta_holds e4 ''dx'' ''x'' ''px''"
    by (rule delta_assign_Return) simp_all
  then show "delta_holds e' ''dx'' ''x'' ''px''"
    by (simp add: k2 k3 k4 delta_holds_cong [of e' _ e4])
  from 2 have "delta_holds e5 ''dy'' ''y'' ''py''"
    by (rule delta_assign_Return) simp_all
  then show "delta_holds e' ''dy'' ''y'' ''py''"
    by (simp add: k3 k4 delta_holds_cong [of e' _ e5])
  from 3 have "delta_holds e6 ''dz'' ''z'' ''pz''"
    by (rule delta_assign_Return) simp_all
  then show "delta_holds e' ''dz'' ''z'' ''pz''"
    by (simp add: k4 delta_holds_cong [of e' _ e6])
qed

lemma apply_transform_2d_delta:
  assumes "apply_transform_2d f e = Return e'"
  shows "delta_holds e' ''dx'' ''x'' ''px''" "delta_holds e' ''dy'' ''y'' ''py''"
proof -
  from assms obtain e3 where
    "run [delta_assign ''dx'' ''x'' ''px'', delta_assign ''dy'' ''y'' ''py''] e3 = Return e'"
    unfolding apply_transform_2d_def run_Cons_Return by auto
  then show "delta_holds e' ''dx'' ''x'' ''px''" "delta_holds e' ''dy'' ''y'' ''py''"
    by (rule delta_tail_Return)+
qed

text \<open>
  Claim C4 (amended). On an event with numeric normalized coordinates (after
  construction), \<^verbatim>\<open>move(args)\<close> returns; afterwards the previous coordinates of both
  spaces are the current coordinates of before the call, the current coordinates are
  unchanged, \<^verbatim>\<open>time_update\<close> is the current time, and in normalized space the delta is
  current minus previous. The screen delta is not recomputed by \<^verbatim>\<open>move\<close>: \<^verbatim>\<open>dx\<close>, \<^verbatim>\<open>dy\<close>,
  \<^verbatim>\<open>dz\<close> keep the values they had before the call. In screen space the delta is current
  minus previous after every \<^verbatim>\<open>scale_for_screen\<close> that returns (\<^verbatim>\<open>dx\<close>, \<^verbatim>\<open>dy\<close> and \<^verbatim>\<open>dz\<close>;
  it returns whenever the coordinates it reads are numbers) and after every
  \<^verbatim>\<open>apply_transform_2d\<close> that returns (\<^verbatim>\<open>dx\<close> and \<^verbatim>\<open>dy\<close>).
\<close>

theorem move_shifts_previous:
  "(e ''x'' = Some x \<and> e ''y'' = Some y \<and> e ''z'' = Some z \<and>
    e ''sx'' = Some (VNum a) \<and> e ''sy'' = Some (VNum b) \<and> e ''sz'' = Some (VNum c) \<and>
    e ''osx'' = Some v \<and> v \<noteq> VNone \<longrightarrow>
      returns (move now args e) \<and>
      (\<forall>(prev, cur) \<in> set [(''px'', ''x''), (''py'', ''y''), (''pz'', ''z''),
                       (''psx'', ''sx''), (''psy'', ''sy''), (''psz'', ''sz'')].
          state_of (move now args e) prev = e cur \<and> state_of (move now args e) cur = e cur) \<and>
      state_of (move now args e) ''time_update'' = Some (VNum now) \<and>
      delta_holds (state_of (move now args e)) ''dsx'' ''sx'' ''psx'' \<and>
      delta_holds (state_of (move now args e)) ''dsy'' ''sy'' ''psy'' \<and>
      delta_holds (state_of (move now args e)) ''dsz'' ''sz'' ''psz'' \<and>
      (\<forall>d \<in> set [''dx'', ''dy'', ''dz'']. state_of (move now args e) d = e d)) \<and>
   (screen_ready e \<longrightarrow> returns (scale_for_screen w h p rotation e)) \<and>
   (scale_for_screen w h p rotation e = Return e1 \<longrightarrow>
      delta_holds e1 ''dx'' ''x'' ''px'' \<and> delta_holds e1 ''dy'' ''y'' ''py'' \<and>
      delta_holds e1 ''dz'' ''z'' ''pz'') \<and>
   (apply_transform_2d f e = Return e2 \<longrightarrow>
      delta_holds e2 ''dx'' ''x'' ''px'' \<and> delta_holds e2 ''dy'' ''y'' ''py'')"
proof (intro conjI impI)
  assume "e ''x'' = Some x \<and> e ''y'' = Some y \<and> e ''z'' = Some z \<and>
   e ''sx'' = Some (VNum a) \<and> e ''sy'' = Some (VNum b) \<and> e ''sz'' = Some (VNum c) \<and>
   e ''osx'' = Some v \<and> v \<noteq> VNone"
  then have h: "e ''x'' = Some x" "e ''y'' = Some y" "e ''z'' = Some z"
    "e ''sx'' = Some (VNum a)" "e ''sy'' = Some (VNum b)" "e ''sz'' = Some (VNum c)"
    "e ''osx'' = Some v" "v \<noteq> VNone"
    by simp_all
  note r = move_effect [OF h, of now args]
  show "returns (move now args e)"
    by (simp add: r)
  show "\<forall>(prev, cur) \<in> set [(''px'', ''x''), (''py'', ''y''), (''pz'', ''z''),
                      (''psx'', ''sx''), (''psy'', ''sy''), (''psz'', ''sz'')].
         state_of (move now args e) prev = e cur \<and> state_of (move now args e) cur = e cur"
    using h by (simp add: r)
  show "state_of (move now args e) ''time_update'' = Some (VNum now)"
    by (simp add: r)
  show "delta_holds (state_of (move now args e)) ''dsx'' ''sx'' ''psx''"
    "delta_holds (state_of (move now args e)) ''dsy'' ''sy'' ''psy''"
    "delta_holds (state_of (move now args e)) ''dsz'' ''sz'' ''psz''"
    using h by (simp_all add: r delta_holds_def py_sub_def)
  show "\<forall>d \<in> set [''dx'', ''dy'', ''dz'']. state_of (move now args e) d = e d"
    by (simp add: r)
next
  assume "screen_ready e"
  then show "returns (scale_for_screen w h p rotation e)"
    by (rule scale_for_screen_returns)
next
  assume s: "scale_for_screen w h p rotation e = Return e1"
  then show "delta_holds e1 ''dx'' ''x'' ''px''" by (rule scale_for_screen_delta(1))
  from s show "delta_holds e1 ''dy'' ''y'' ''py''" by (rule scale_for_screen_delta(2))
  from s show "delta_holds e1 ''dz'' ''z'' ''pz''" by (rule scale_for_screen_delta(3))
next
  assume t: "apply_transform_2d f e = Return e2"
  then show "delta_holds e2 ''dx'' ''x'' ''px''" by (rule apply_transform_2d_delta(1))
  from t show "delta_holds e2 ''dy'' ''y'' ''py''" by (rule apply_transform_2d_delta(2))
qed

lemma moved_event_rescaled:
  "scale_for_screen 100 100 None 180 moved_event =
     Return (moved_event(''x'' \<mapsto> VNum 100, ''y'' \<mapsto> VNum 100,
               ''dx'' \<mapsto> VNum 0, ''dy'' \<mapsto> VNum 0, ''dz'' \<mapsto> VNum 0,
               ''pos'' \<mapsto> VTuple [VNum 100, VNum 100]))"
  by (simp add: scale_defs stmt_defs)

lemma moved_event_shifted:
  "apply_transform_2d shift10 moved_event =
     Return (moved_event(''x'' \<mapsto> VNum 110, ''y'' \<mapsto> VNum 110,
               ''pos'' \<mapsto> VTuple [VNum 110, VNum 110],
               ''px'' \<mapsto> VNum 110, ''py'' \<mapsto> VNum 110, ''ox'' \<mapsto> VNum 10, ''oy'' \<mapsto> VNum 10,
               ''dx'' \<mapsto> VNum 0, ''dy'' \<mapsto> VNum 0))"
  by (simp add: apply_transform_2d_def transform_pair_def shift10_def
      attr_def calc_def delta_assign_def)

theorem move_shifts_previous_witness:
  "returns (move 1 VNone turned_event) \<and>
   moved_event ''px'' = Some (VNum 100) \<and> moved_event ''x'' = Some (VNum 100) \<and>
   moved_event ''psx'' = Some (VNum 0) \<and> moved_event ''sx'' = Some (VNum 0) \<and>
   moved_event ''time_update'' = Some (VNum 1) \<and>
   delta_holds moved_event ''dsx'' ''sx'' ''psx'' \<and>
   moved_event ''dx'' = Some (VNum 100) \<and>
   screen_ready moved_event \<and>
   returns (scale_for_screen 100 100 None 180 moved_event) \<and>
   delta_holds (state_of (scale_for_screen 100 100 None 180 moved_event)) ''dx'' ''x'' ''px'' \<and>
   state_of (scale_for_screen 100 100 None 180 moved_event) ''dx'' = Some (VNum 0) \<and>
   returns (apply_transform_2d shift10 moved_event) \<and>
   delta_holds (state_of (apply_transform_2d shift10 moved_event)) ''dx'' ''x'' ''px'' \<and>
   state_of (apply_transform_2d shift10 moved_event) ''dx'' = Some (VNum 0)"
proof -
  have r: "screen_ready moved_event"
    by (simp add: screen_ready_def numeric_def)
  note m = move_shifts_previous [where e = turned_event and x = "VNum 100" and y = "VNum 100"
      and z = "VNum 0" and a = 0 and b = 0 and c = 0 and v = "VNum 0" and now = 1 and args = VNone]
  note s = move_shifts_previous [where e = moved_event and w = 100 and h = 100 and p = None
      and rotation = 180 and f = shift10
      and ?e1.0 = "state_of (scale_for_screen 100 100 None 180 moved_event)"
      and ?e2.0 = "state_of (apply_transform_2d shift10 moved_event)"]
  from m have "returns (move 1 VNone turned_event)"
    "state_of (move 1 VNone turned_event) ''px'' = Some (VNum 100)"
    "state_of (move 1 VNone turned_event) ''x'' = Some (VNum 100)"
    "state_of (move 1 VNone turned_event) ''psx'' = Some (VNum 0)"
    "state_of (move 1 VNone turned_event) ''sx'' = Some (VNum 0)"
    "state_of (move 1 VNone turned_event) ''time_update'' = Some (VNum 1)"
    "delta_holds (state_of (move 1 VNone turned_event)) ''dsx'' ''sx'' ''psx''"
    "state_of (move 1 VNone turned_event) ''dx'' = Some (VNum 100)"
    by simp_all
  then have 1: "returns (move 1 VNone turned_event)"
    "moved_event ''px'' = Some (VNum 100)" "moved_event ''x'' = Some (VNum 100)"
    "moved_event ''psx'' = Some (VNum 0)" "moved_event ''sx'' = Some (VNum 0)"
    "moved_event ''time_update'' = Some (VNum 1)"
    "delta_holds moved_event ''dsx'' ''sx'' ''psx''"
    "moved_event ''dx'' = Some (VNum 100)"
    by (simp_all only: moved_event_def)
  from s r have 2: "returns (scale_for_screen 100 100 None 180 moved_event)"
    "delta_holds (state_of (scale_for_screen 100 100 None 180 moved_event)) ''dx'' ''x'' ''px''"
    "delta_holds (state_of (apply_transform_2d shift10 moved_event)) ''dx'' ''x'' ''px''"
    by (simp_all add: moved_event_rescaled moved_event_shifted)
  have 3: "state_of (scale_for_screen 100 100 None 180 moved_event) ''dx'' = Some (VNum 0)"
    "returns (apply_transform_2d shift10 moved_event)"
    "state_of (apply_transform_2d shift10 moved_event) ''dx'' = Some (VNum 0)"
    by (simp_all add: moved_event_rescaled moved_event_shifted)
  from 1 2 3 r show ?thesis by simp
qed

text \<open>
  The claim as stated fails in screen space: construct, project with rotation 0, project
  with rotation 180 (so that \<^verbatim>\<open>dx\<close> is 100), then move. Each call returns, and after the
  move \<^verbatim>\<open>x\<close> and \<^verbatim>\<open>px\<close> are both 100 while \<^verbatim>\<open>dx\<close> is still 100.
\<close>

theorem move_screen_delta_counterexample:
  "scale_for_screen 100 100 None 0 example_event = Return scaled_event \<and>
   scale_for_screen 100 100 None 180 scaled_event = Return turned_event \<and>
   move 1 VNone turned_event = Return moved_event \<and>
   moved_event ''x'' = Some (VNum 100) \<and>
   moved_event ''px'' = Some (VNum 100) \<and>
   moved_event ''dx'' = Some (VNum 100) \<and>
   \<not> delta_holds moved_event ''dx'' ''x'' ''px''"
proof -
  have "\<not> delta_holds moved_event ''dx'' ''x'' ''px''"
    by (simp add: delta_holds_def py_sub_def)
  then show ?thesis
    using scaled_event_returns turned_event_returns moved_event_returns by simp
qed

section \<open>Planar transform\<close>

lemma apply_transform_2d_effect:
  assumes "e ''x'' = Some x0" "e ''y'' = Some y0" "f x0 y0 = Inr (VTuple [x1, y1])"
    and "e ''px'' = Some px0" "e ''py'' = Some py0" "f px0 py0 = Inr (VTuple [px1, py1])"
    and "e ''ox'' = Some ox0" "e ''oy'' = Some oy0" "f ox0 oy0 = Inr (VTuple [ox1, oy1])"
    and "py_sub x1 px1 = Inr dx1" "py_sub y1 py1 = Inr dy1"
  shows "apply_transform_2d f e =
     Return (e(''x'' \<mapsto> x1, ''y'' \<mapsto> y1, ''pos'' \<mapsto> VTuple [x1, y1],
               ''px'' \<mapsto> px1, ''py'' \<mapsto> py1, ''ox'' \<mapsto> ox1, ''oy'' \<mapsto> oy1,
               ''dx'' \<mapsto> dx1, ''dy'' \<mapsto> dy1))"
  using assms
  by (simp add: apply_transform_2d_def transform_pair_def attr_def calc_def delta_assign_def)

lemma apply_transform_2d_returned:
  assumes "e ''x'' = Some x0" "e ''y'' = Some y0" "f x0 y0 = Inr r" "unpack2 r = Inr (x1, y1)"
    and "e ''px'' = Some px0" "e ''py'' = Some py0" "f px0 py0 = Inr rp"
      "unpack2 rp = Inr (px1, py1)"
    and "e ''ox'' = Some ox0" "e ''oy'' = Some oy0" "f ox0 oy0 = Inr ro"
      "unpack2 ro = Inr (ox1, oy1)"
    and "py_sub x1 px1 = Inr dx1" "py_sub y1 py1 = Inr dy1"
  shows "apply_transform_2d f e =
     Return (e(''x'' \<mapsto> x1, ''y'' \<mapsto> y1, ''pos'' \<mapsto> r,
               ''px'' \<mapsto> px1, ''py'' \<mapsto> py1, ''ox'' \<mapsto> ox1, ''oy'' \<mapsto> oy1,
               ''dx'' \<mapsto> dx1, ''dy'' \<mapsto> dy1))"
  using assms
  by (simp add: apply_transform_2d_def transform_pair_def attr_def calc_def delta_assign_def)

lemma unpack2_tuple:
  assumes "unpack2 r = Inr (a, b)" "is_tuple r"
  shows "r = VTuple [a, b]"
proof -
  from assms(2) obtain xs where "r = VTuple xs"
    by (cases r) simp_all
  with assms(1) show ?thesis
    by (auto simp: unpack2_def split: list.splits)
qed

text \<open>
  Claim C8. For every transform \<open>f\<close>, when \<open>f\<close> returns a value that unpacks into two
  on the current, the previous and the origin screen position and the new current and
  previous coordinates can be subtracted, \<^verbatim>\<open>apply_transform_2d(f)\<close> returns and has set
  \<open>(x, y) = f(x, y)\<close>, \<open>(px, py) = f(px, py)\<close>, \<open>(ox, oy) = f(ox, oy)\<close>, \<open>pos\<close> to the
  value \<open>f(x, y)\<close> returned, which is the tuple of the new \<open>(x, y)\<close> when \<open>f\<close> returns a
  tuple, \<open>dx\<close> to the new \<open>x - px\<close> and \<open>dy\<close> to the new \<open>y - py\<close>. Every other
  attribute, among them \<^verbatim>\<open>z\<close>, \<^verbatim>\<open>pz\<close>, \<^verbatim>\<open>oz\<close>, \<^verbatim>\<open>dz\<close> and all normalized coordinates, is
  unchanged, also when the call raises.
\<close>

theorem apply_transform_2d_spec:
  "(e ''x'' = Some x0 \<and> e ''y'' = Some y0 \<and> f x0 y0 = Inr r \<and> unpack2 r = Inr (x1, y1) \<and>
    e ''px'' = Some px0 \<and> e ''py'' = Some py0 \<and> f px0 py0 = Inr rp \<and>
    unpack2 rp = Inr (px1, py1) \<and>
    e ''ox'' = Some ox0 \<and> e ''oy'' = Some oy0 \<and> f ox0 oy0 = Inr ro \<and>
    unpack2 ro = Inr (ox1, oy1) \<and>
    py_sub x1 px1 = Inr dx1 \<and> py_sub y1 py1 = Inr dy1 \<longrightarrow>
      apply_transform_2d f e =
        Return (e(''x'' \<mapsto> x1, ''y'' \<mapsto> y1, ''pos'' \<mapsto> r,
                  ''px'' \<mapsto> px1, ''py'' \<mapsto> py1, ''ox'' \<mapsto> ox1, ''oy'' \<mapsto> oy1,
                  ''dx'' \<mapsto> dx1, ''dy'' \<mapsto> dy1)) \<and>
      (is_tuple r \<longrightarrow> r = VTuple [x1, y1])) \<and>
   (\<forall>n \<in> set [''z'', ''pz'', ''oz'', ''dz'', ''sx'', ''sy'', ''sz'', ''osx'', ''osy'', ''osz'',
                ''psx'', ''psy'', ''psz'', ''dsx'', ''dsy'', ''dsz''].
      state_of (apply_transform_2d f e) n = e n)"
proof (intro conjI impI)
  assume "e ''x'' = Some x0 \<and> e ''y'' = Some y0 \<and> f x0 y0 = Inr r \<and> unpack2 r = Inr (x1, y1) \<and>
    e ''px'' = Some px0 \<and> e ''py'' = Some py0 \<and> f px0 py0 = Inr rp \<and>
    unpack2 rp = Inr (px1, py1) \<and>
    e ''ox'' = Some ox0 \<and> e ''oy'' = Some oy0 \<and> f ox0 oy0 = Inr ro \<and>
    unpack2 ro = Inr (ox1, oy1) \<and>
    py_sub x1 px1 = Inr dx1 \<and> py_sub y1 py1 = Inr dy1"
  then have h: "e ''x'' = Some x0" "e ''y'' = Some y0" "f x0 y0 = Inr r"
    "unpack2 r = Inr (x1, y1)"
    "e ''px'' = Some px0" "e ''py'' = Some py0" "f px0 py0 = Inr rp"
    "unpack2 rp = Inr (px1, py1)"
    "e ''ox'' = Some ox0" "e ''oy'' = Some oy0" "f ox0 oy0 = Inr ro"
    "unpack2 ro = Inr (ox1, oy1)"
    "py_sub x1 px1 = Inr dx1" "py_sub y1 py1 = Inr dy1"
    by simp_all
  show "apply_transform_2d f e =
        Return (e(''x'' \<mapsto> x1, ''y'' \<mapsto> y1, ''pos'' \<mapsto> r,
                  ''px'' \<mapsto> px1, ''py'' \<mapsto> py1, ''ox'' \<mapsto> ox1, ''oy'' \<mapsto> oy1,
                  ''dx'' \<mapsto> dx1, ''dy'' \<mapsto> dy1))"
    by (rule apply_transform_2d_returned [OF h])
  {
    assume "is_tuple r"
    with h(4) show "r = VTuple [x1, y1]" by (rule unpack2_tuple)
  }
next
  show "\<forall>n \<in> set [''z'', ''pz'', ''oz'', ''dz'', ''sx'', ''sy'', ''sz'', ''osx'', ''osy'', ''osz'',
                ''psx'', ''psy'', ''psz'', ''dsx'', ''dsy'', ''dsz''].
      state_of (apply_transform_2d f e) n = e n"
    by (simp add: apply_transform_2d_keeps)
qed

theorem apply_transform_2d_spec_witness:
  "apply_transform_2d shift10 turned_event =
     Return (turned_event(''x'' \<mapsto> VNum 110, ''y'' \<mapsto> VNum 110,
               ''pos'' \<mapsto> VTuple [VNum 110, VNum 110],
               ''px'' \<mapsto> VNum 10, ''py'' \<mapsto> VNum 10, ''ox'' \<mapsto> VNum 10, ''oy'' \<mapsto> VNum 10,
               ''dx'' \<mapsto> VNum 100, ''dy'' \<mapsto> VNum 100)) \<and>
   is_tuple (VTuple [VNum 110, VNum 110]) \<and>
   state_of (apply_transform_2d shift10 turned_event) ''z'' = Some (VNum 0) \<and>
   state_of (apply_transform_2d shift10 turned_event) ''osx'' = Some (VNum 0)"
  using apply_transform_2d_spec [where e = turned_event and f = shift10
          and ?x0.0 = "VNum 100" and ?y0.0 = "VNum 100" and r = "VTuple [VNum 110, VNum 110]"
          and ?x1.0 = "VNum 110" and ?y1.0 = "VNum 110"
          and ?px0.0 = "VNum 0" and ?py0.0 = "VNum 0" and rp = "VTuple [VNum 10, VNum 10]"
          and ?px1.0 = "VNum 10" and ?py1.0 = "VNum 10"
          and ?ox0.0 = "VNum 0" and ?oy0.0 = "VNum 0" and ro = "VTuple [VNum 10, VNum 10]"
          and ?ox1.0 = "VNum 10" and ?oy1.0 = "VNum 10"
          and ?dx1.0 = "VNum 100" and ?dy1.0 = "VNum 100"]
  by simp

section \<open>Restoring a snapshot\<close>

lemma restore_keeps:
  assumes "\<And>j m. py_index attrs j = Inr (VStr m) \<Longrightarrow> m \<noteq> n"
  shows "state_of (restore attrs values i k e) n = e n"
proof (induction k arbitrary: i e)
  case 0
  show ?case by simp
next
  case (Suc k)
  show ?case
  proof (cases "py_index attrs i")
    case (Inl err)
    then show ?thesis by simp
  next
    case name: (Inr name)
    show ?thesis
    proof (cases "py_index values i")
      case (Inl err)
      with name show ?thesis by simp
    next
      case v: (Inr v)
      show ?thesis
      proof (cases name)
        case (VStr m)
        with name assms have "m \<noteq> n" by simp
        have "state_of (restore attrs values (Suc i) k (e(m \<mapsto> v))) n = (e(m \<mapsto> v)) n"
          by (rule Suc.IH)
        with \<open>m \<noteq> n\<close> have "state_of (restore attrs values (Suc i) k (e(m \<mapsto> v))) n = e n"
          by simp
        with name v VStr show ?thesis
          by (simp add: setattr_def)
      qed (simp_all add: name v)
    qed
  qed
qed

lemma py_index_names:
  assumes "attrs = VTuple (map VStr ns) \<or> attrs = VList (map VStr ns)"
  shows "j < length ns \<Longrightarrow> py_index attrs j = Inr (VStr (ns ! j))"
    and "py_index attrs j = Inr (VStr m) \<Longrightarrow> m \<in> set ns"
    and "py_len attrs = Inr (length ns)"
    and "iter_items attrs = Some (map VStr ns)"
  using assms by (auto split: if_splits)

lemma restore_plain:
  assumes attrs: "attrs = VTuple (map VStr ns) \<or> attrs = VList (map VStr ns)"
    and plain: "set ns \<inter> set properties = {}"
    and len: "length vs = length ns"
  shows "i + k = length ns \<Longrightarrow>
     restore attrs (VList vs) i k e = Return (e ++ map_of (rev (zip (drop i ns) (drop i vs))))"
proof (induction k arbitrary: i e)
  case 0
  then show ?case using len by simp
next
  case (Suc k)
  then have i: "i < length ns" "Suc i + k = length ns" by simp_all
  from i(1) plain have n: "ns ! i \<notin> set properties"
    using nth_mem by blast
  have "restore attrs (VList vs) i (Suc k) e =
          restore attrs (VList vs) (Suc i) k (e(ns ! i \<mapsto> vs ! i))"
    using i(1) n len by (simp add: py_index_names(1) [OF attrs] setattr_def)
  also have "\<dots> = Return (e(ns ! i \<mapsto> vs ! i) ++
                 map_of (rev (zip (drop (Suc i) ns) (drop (Suc i) vs))))"
    using i(2) by (rule Suc.IH)
  also have "e(ns ! i \<mapsto> vs ! i) ++ map_of (rev (zip (drop (Suc i) ns) (drop (Suc i) vs))) =
             e ++ map_of (rev (zip (drop i ns) (drop i vs)))"
  proof -
    have "drop i ns = ns ! i # drop (Suc i) ns" "drop i vs = vs ! i # drop (Suc i) vs"
      using i(1) len by (simp_all add: Cons_nth_drop_Suc)
    then show ?thesis
      by (simp add: fun_eq_iff map_add_def split: option.splits)
  qed
  finally show ?case .
qed

lemma pop_entry:
  assumes "e ''push_attrs_stack'' = Some (VList (st @ [VTuple [attrs, values]]))"
    and "py_len attrs = Inr k"
  shows "pop e = restore attrs values 0 k (e(''push_attrs_stack'' \<mapsto> VList st))"
  using assms by (simp add: pop_def attr_def)

lemma pop_keeps:
  assumes "e ''push_attrs_stack'' = Some (VList (st @ [VTuple [attrs, values]]))"
    and "\<And>j m. py_index attrs j = Inr (VStr m) \<Longrightarrow> m \<noteq> n"
    and "n \<noteq> ''push_attrs_stack''"
  shows "state_of (pop e) n = e n"
proof (cases "py_len attrs")
  case (Inl err)
  with assms(1,3) show ?thesis by (simp add: pop_def attr_def)
next
  case (Inr k)
  have "state_of (restore attrs values 0 k (e(''push_attrs_stack'' \<mapsto> VList st))) n =
          (e(''push_attrs_stack'' \<mapsto> VList st)) n"
    using assms(2) by (rule restore_keeps)
  with assms(1,3) Inr show ?thesis
    by (simp add: pop_entry)
qed

lemma default_not_properties: "set default_push_attrs \<inter> set properties = {}"
  by (simp add: default_push_attrs_def properties_def)

lemma length_default [simp]: "length default_push_attrs = 13"
  by (simp add: default_push_attrs_def)

lemma pop_default_keeps:
  assumes "e ''push_attrs_stack'' =
             Some (VList (st @ [VTuple [VTuple (map VStr default_push_attrs), values]]))"
    and "n \<notin> set default_push_attrs" "n \<noteq> ''push_attrs_stack''"
  shows "state_of (pop e) n = e n"
  using assms(1) _ assms(3)
proof (rule pop_keeps)
  fix j m
  assume "py_index (VTuple (map VStr default_push_attrs)) j = Inr (VStr m)"
  then have "m \<in> set default_push_attrs"
    by (rule py_index_names(2) [rotated]) simp
  with assms(2) show "m \<noteq> n" by auto
qed

lemma pop_default:
  assumes "e ''push_attrs_stack'' =
             Some (VList (st @ [VTuple [VTuple (map VStr default_push_attrs), VList vs]]))"
    and "length vs = 13"
  shows "pop e = Return (e(''push_attrs_stack'' \<mapsto> VList st) ++
                         map_of (rev (zip default_push_attrs vs)))"
proof -
  have "pop e = restore (VTuple (map VStr default_push_attrs)) (VList vs) 0 13
                  (e(''push_attrs_stack'' \<mapsto> VList st))"
    using assms(1) by (rule pop_entry) simp
  also have "\<dots> = Return (e(''push_attrs_stack'' \<mapsto> VList st) ++
                 map_of (rev (zip (drop 0 default_push_attrs) (drop 0 vs))))"
    by (rule restore_plain [where ns = default_push_attrs])
       (simp_all add: default_not_properties assms(2))
  finally show ?thesis by simp
qed

lemma length_13:
  assumes "length vs = 13"
  obtains v0 v1 v2 v3 v4 v5 v6 v7 v8 v9 v10 v11 v12 :: 'a
  where "vs = [v0, v1, v2, v3, v4, v5, v6, v7, v8, v9, v10, v11, v12]"
  using assms by (auto simp: numeral_eq_Suc length_Suc_conv)

lemma pop_default_lookup:
  assumes "e ''push_attrs_stack'' =
             Some (VList (st @ [VTuple [VTuple (map VStr default_push_attrs), VList vs]]))"
    and "length vs = 13"
  shows "state_of (pop e) ''x'' = Some (vs ! 0)"
    and "state_of (pop e) ''y'' = Some (vs ! 1)"
    and "state_of (pop e) ''ox'' = Some (vs ! 6)"
    and "state_of (pop e) ''oy'' = Some (vs ! 7)"
    and "state_of (pop e) ''oz'' = Some (vs ! 8)"
    and "state_of (pop e) ''pos'' = Some (vs ! 12)"
    and "state_of (pop e) ''push_attrs_stack'' = Some (VList st)"
proof -
  from assms(2) obtain v0 v1 v2 v3 v4 v5 v6 v7 v8 v9 v10 v11 v12
    where vs: "vs = [v0, v1, v2, v3, v4, v5, v6, v7, v8, v9, v10, v11, v12]"
    by (rule length_13)
  note r = pop_default [of e st vs, OF assms]
  show "state_of (pop e) ''x'' = Some (vs ! 0)"
    and "state_of (pop e) ''y'' = Some (vs ! 1)"
    and "state_of (pop e) ''ox'' = Some (vs ! 6)"
    and "state_of (pop e) ''oy'' = Some (vs ! 7)"
    and "state_of (pop e) ''oz'' = Some (vs ! 8)"
    and "state_of (pop e) ''pos'' = Some (vs ! 12)"
    and "state_of (pop e) ''push_attrs_stack'' = Some (VList st)"
    by (simp_all add: r vs default_push_attrs_def map_add_def)
qed

section \<open>Origin coordinates\<close>






lemma getattr_plain:
  "n \<notin> set properties \<Longrightarrow>
   getattr e n = (case e n of None \<Rightarrow> Inl AttributeError | Some v \<Rightarrow> Inr v)"
  by (auto simp: getattr_def properties_def)

lemma getattrs_plain:
  "set ns \<inter> set properties = {} \<Longrightarrow> set ns \<subseteq> dom e \<Longrightarrow>
   getattrs e (map VStr ns) = Inr (map (\<lambda>n. the (e n)) ns)"
  by (induction ns) (auto simp: getattr_plain)

lemma push_seq_plain:
  assumes "iter_items attrs = Some (map VStr ns)"
    and "set ns \<inter> set properties = {}" "set ns \<subseteq> dom e"
    and "e ''push_attrs_stack'' = Some (VList st)"
  shows "push_seq attrs e =
     Return (e(''push_attrs_stack'' \<mapsto>
       VList (st @ [VTuple [attrs, VList (map (\<lambda>n. the (e n)) ns)]])))"
  using assms by (simp add: push_seq_def getattrs_plain attr_def)

lemma push_default:
  assumes "e ''push_attrs'' = Some (VTuple (map VStr default_push_attrs))"
    and "set default_push_attrs \<subseteq> dom e"
    and "e ''push_attrs_stack'' = Some (VList st)"
  shows "push VNone e =
     Return (e(''push_attrs_stack'' \<mapsto>
       VList (st @ [VTuple [VTuple (map VStr default_push_attrs),
                            VList (map (\<lambda>n. the (e n)) default_push_attrs)]])))"
  using assms
  by (simp add: push_def attr_def push_seq_plain [where ns = default_push_attrs]
      default_not_properties)

lemma pushed_event_eq:
  "pushed_event = turned_event(''push_attrs_stack'' \<mapsto>
     VList [VTuple [VTuple (map VStr default_push_attrs),
       VList [VNum 100, VNum 100, VNum 0, VNum 100, VNum 100, VNum 0, VNum 0, VNum 0, VNum 0,
              VNum 0, VNum 0, VNum 0, VTuple [VNum 100, VNum 100]]]])"
proof -
  have "set default_push_attrs \<subseteq> dom turned_event"
    by (auto simp: default_push_attrs_def)
  then have "push VNone turned_event =
     Return (turned_event(''push_attrs_stack'' \<mapsto>
       VList ([] @ [VTuple [VTuple (map VStr default_push_attrs),
                            VList (map (\<lambda>n. the (turned_event n)) default_push_attrs)]])))"
    by (intro push_default) simp_all
  moreover have "map (\<lambda>n. the (turned_event n)) default_push_attrs =
       [VNum 100, VNum 100, VNum 0, VNum 100, VNum 100, VNum 0, VNum 0, VNum 0, VNum 0,
              VNum 0, VNum 0, VNum 0, VTuple [VNum 100, VNum 100]]"
    by (simp add: default_push_attrs_def)
  ultimately show ?thesis
    by (simp add: pushed_event_def)
qed

lemma pushed_event_returns: "push VNone turned_event = Return pushed_event"
proof -
  have "set default_push_attrs \<subseteq> dom turned_event"
    by (auto simp: default_push_attrs_def)
  then have "returns (push VNone turned_event)"
    by (simp add: push_default [where st = "[]"])
  then show ?thesis
    by (cases "push VNone turned_event") (simp_all add: pushed_event_def)
qed

lemma pushed_event_lookup [simp]:
  "pushed_event ''x'' = Some (VNum 100)"
  "pushed_event ''y'' = Some (VNum 100)"
  "pushed_event ''px'' = Some (VNum 0)"
  "pushed_event ''py'' = Some (VNum 0)"
  "pushed_event ''ox'' = Some (VNum 0)"
  "pushed_event ''oy'' = Some (VNum 0)"
  "pushed_event ''oz'' = Some (VNum 0)"
  "pushed_event ''osx'' = Some (VNum 0)"
  "pushed_event ''osy'' = Some (VNum 0)"
  "pushed_event ''osz'' = Some (VNum 0)"
  "pushed_event ''pos'' = Some (VTuple [VNum 100, VNum 100])"
  "pushed_event ''push_attrs'' = Some (VTuple (map VStr default_push_attrs))"
  "pushed_event ''push_attrs_stack'' =
     Some (VList [VTuple [VTuple (map VStr default_push_attrs),
       VList [VNum 100, VNum 100, VNum 0, VNum 100, VNum 100, VNum 0, VNum 0, VNum 0, VNum 0,
              VNum 0, VNum 0, VNum 0, VTuple [VNum 100, VNum 100]]]])"
  by (simp_all add: pushed_event_eq)

lemma shifted_event_returns:
  "apply_transform_2d shift10 pushed_event =
     Return (pushed_event(''x'' \<mapsto> VNum 110, ''y'' \<mapsto> VNum 110,
               ''pos'' \<mapsto> VTuple [VNum 110, VNum 110],
               ''px'' \<mapsto> VNum 10, ''py'' \<mapsto> VNum 10, ''ox'' \<mapsto> VNum 10, ''oy'' \<mapsto> VNum 10,
               ''dx'' \<mapsto> VNum 100, ''dy'' \<mapsto> VNum 100))"
  by (rule apply_transform_2d_effect [where ?x0.0 = "VNum 100" and ?y0.0 = "VNum 100"
        and ?px0.0 = "VNum 0" and ?py0.0 = "VNum 0" and ?ox0.0 = "VNum 0" and ?oy0.0 = "VNum 0"])
     simp_all

lemma shifted_event_eq:
  "shifted_event = pushed_event(''x'' \<mapsto> VNum 110, ''y'' \<mapsto> VNum 110,
               ''pos'' \<mapsto> VTuple [VNum 110, VNum 110],
               ''px'' \<mapsto> VNum 10, ''py'' \<mapsto> VNum 10, ''ox'' \<mapsto> VNum 10, ''oy'' \<mapsto> VNum 10,
               ''dx'' \<mapsto> VNum 100, ''dy'' \<mapsto> VNum 100)"
  by (simp add: shifted_event_def shifted_event_returns)

lemma shifted_event_lookup [simp]:
  "shifted_event ''x'' = Some (VNum 110)"
  "shifted_event ''y'' = Some (VNum 110)"
  "shifted_event ''pos'' = Some (VTuple [VNum 110, VNum 110])"
  "shifted_event ''ox'' = Some (VNum 10)"
  "shifted_event ''oy'' = Some (VNum 10)"
  "shifted_event ''oz'' = Some (VNum 0)"
  "shifted_event ''osx'' = Some (VNum 0)"
  "shifted_event ''osy'' = Some (VNum 0)"
  "shifted_event ''osz'' = Some (VNum 0)"
  "shifted_event ''push_attrs'' = Some (VTuple (map VStr default_push_attrs))"
  "shifted_event ''push_attrs_stack'' =
     Some (VList ([] @ [VTuple [VTuple (map VStr default_push_attrs),
       VList [VNum 100, VNum 100, VNum 0, VNum 100, VNum 100, VNum 0, VNum 0, VNum 0, VNum 0,
              VNum 0, VNum 0, VNum 0, VTuple [VNum 100, VNum 100]]]]))"
  by (simp_all add: shifted_event_eq)







section \<open>Push and pop\<close>

lemma reassign_other: "n \<notin> fst ` set rs \<Longrightarrow> reassign rs e n = e n"
  by (induction rs arbitrary: e) auto

lemma map_of_rev_zip_map:
  "map_of (rev (zip ns (map g ns))) n = (if n \<in> set ns then Some (g n) else None)"
  by (induction ns) (auto simp: map_add_def)

lemma push_seq_pop:
  assumes items: "attrs = VTuple (map VStr ns) \<or> attrs = VList (map VStr ns)"
    and plain: "set ns \<inter> set properties = {}" "''push_attrs_stack'' \<notin> set ns"
    and dom: "set ns \<subseteq> dom e"
    and stack: "e ''push_attrs_stack'' = Some (VList st)"
    and rs: "fst ` set rs \<subseteq> set ns"
  shows "returns (push_seq attrs e)"
    and "pop (reassign rs (state_of (push_seq attrs e))) = Return e"
proof -
  let ?vs = "map (\<lambda>n. the (e n)) ns"
  let ?e1 = "e(''push_attrs_stack'' \<mapsto> VList (st @ [VTuple [attrs, VList ?vs]]))"
  let ?e2 = "reassign rs ?e1"
  have p: "push_seq attrs e = Return ?e1"
    using py_index_names(4) [OF items] plain(1) dom stack by (rule push_seq_plain)
  then show "returns (push_seq attrs e)" by simp
  have other: "?e2 n = ?e1 n" if "n \<notin> set ns" for n
    using that rs by (intro reassign_other) auto
  then have "?e2 ''push_attrs_stack'' = Some (VList (st @ [VTuple [attrs, VList ?vs]]))"
    using plain(2) by simp
  then have "pop ?e2 =
      restore attrs (VList ?vs) 0 (length ns) (?e2(''push_attrs_stack'' \<mapsto> VList st))"
    using py_index_names(3) [OF items] by (rule pop_entry)
  also have "\<dots> = Return (?e2(''push_attrs_stack'' \<mapsto> VList st) ++ map_of (rev (zip ns ?vs)))"
    using restore_plain [OF items plain(1), where vs = ?vs and i = 0 and k = "length ns"]
    by simp
  also have "?e2(''push_attrs_stack'' \<mapsto> VList st) ++ map_of (rev (zip ns ?vs)) = e"
  proof
    fix n
    show "(?e2(''push_attrs_stack'' \<mapsto> VList st) ++ map_of (rev (zip ns ?vs))) n = e n"
    proof (cases "n \<in> set ns")
      case True
      with dom obtain v where "e n = Some v" by auto
      with True show ?thesis
        by (simp add: map_add_def map_of_rev_zip_map)
    next
      case False
      with other [OF False] stack show ?thesis
        by (simp add: map_add_def map_of_rev_zip_map)
    qed
  qed
  finally have "pop ?e2 = Return e" .
  then show "pop (reassign rs (state_of (push_seq attrs e))) = Return e"
    by (simp only: p state_of.simps)
qed

text \<open>
  Claim C6 (amended). Let \<open>A\<close> be a list of names of attributes the event has, none of
  them \<^verbatim>\<open>push_attrs_stack\<close> and none a read-only property. Then \<^verbatim>\<open>push(A)\<close> returns, and
  after any sequence of assignments to attributes named in \<open>A\<close>, \<^verbatim>\<open>pop()\<close> returns
  the event exactly as it was before the push: every attribute in \<open>A\<close> has the value it
  had at the push and the stack is the stack from before the push. The same holds for
  \<^verbatim>\<open>push()\<close> with \<^verbatim>\<open>push_attrs\<close> in place of \<open>A\<close>.
\<close>

theorem push_pop_round_trip:
  "set A \<inter> set properties = {} \<and> ''push_attrs_stack'' \<notin> set A \<and> set A \<subseteq> dom e \<and>
   e ''push_attrs_stack'' = Some (VList st) \<and> fst ` set rs \<subseteq> set A \<longrightarrow>
     returns (push (VList (map VStr A)) e) \<and>
     pop (reassign rs (state_of (push (VList (map VStr A)) e))) = Return e \<and>
     (e ''push_attrs'' = Some (VTuple (map VStr A)) \<longrightarrow>
        returns (push VNone e) \<and>
        pop (reassign rs (state_of (push VNone e))) = Return e)"
proof (intro impI conjI)
  assume "set A \<inter> set properties = {} \<and> ''push_attrs_stack'' \<notin> set A \<and> set A \<subseteq> dom e \<and>
   e ''push_attrs_stack'' = Some (VList st) \<and> fst ` set rs \<subseteq> set A"
  then have h: "set A \<inter> set properties = {}" "''push_attrs_stack'' \<notin> set A" "set A \<subseteq> dom e"
    "e ''push_attrs_stack'' = Some (VList st)" "fst ` set rs \<subseteq> set A"
    by simp_all
  have l: "VList (map VStr A) = VTuple (map VStr A) \<or> VList (map VStr A) = VList (map VStr A)"
    by simp
  have t: "VTuple (map VStr A) = VTuple (map VStr A) \<or> VTuple (map VStr A) = VList (map VStr A)"
    by simp
  show "returns (push (VList (map VStr A)) e)"
    using push_seq_pop(1) [OF l h] by (simp add: push_def)
  show "pop (reassign rs (state_of (push (VList (map VStr A)) e))) = Return e"
    using push_seq_pop(2) [OF l h] by (simp add: push_def)
  assume pa: "e ''push_attrs'' = Some (VTuple (map VStr A))"
  show "returns (push VNone e)"
    using push_seq_pop(1) [OF t h] pa by (simp add: push_def attr_def)
  show "pop (reassign rs (state_of (push VNone e))) = Return e"
    using push_seq_pop(2) [OF t h] pa by (simp add: push_def attr_def)
qed

theorem push_pop_round_trip_witness:
  "returns (push (VList (map VStr [''x'', ''y'', ''pos''])) turned_event) \<and>
   pop (reassign [(''x'', VNum 5), (''pos'', VNone), (''x'', VStr ''a'')]
         (state_of (push (VList (map VStr [''x'', ''y'', ''pos''])) turned_event))) =
     Return turned_event \<and>
   returns (push VNone turned_event) \<and>
   pop (reassign [(''x'', VNum 5), (''oz'', VNone)] (state_of (push VNone turned_event))) =
     Return turned_event"
proof -
  have a: "set [''x'', ''y'', ''pos''] \<subseteq> dom turned_event"
    by auto
  have b: "set default_push_attrs \<subseteq> dom turned_event"
    by (auto simp: default_push_attrs_def)
  have c: "set default_push_attrs \<inter> set properties = {}"
      "''push_attrs_stack'' \<notin> set default_push_attrs"
      "fst ` set [(''x'', VNum 5), (''oz'', VNone)] \<subseteq> set default_push_attrs"
    by (simp_all add: default_push_attrs_def properties_def)
  have 1: "returns (push (VList (map VStr [''x'', ''y'', ''pos''])) turned_event) \<and>
   pop (reassign [(''x'', VNum 5), (''pos'', VNone), (''x'', VStr ''a'')]
         (state_of (push (VList (map VStr [''x'', ''y'', ''pos''])) turned_event))) =
     Return turned_event"
    using a push_pop_round_trip [of "[''x'', ''y'', ''pos'']" turned_event "[]"
            "[(''x'', VNum 5), (''pos'', VNone), (''x'', VStr ''a'')]"]
    by (simp add: properties_def)
  have 2: "returns (push VNone turned_event) \<and>
   pop (reassign [(''x'', VNum 5), (''oz'', VNone)] (state_of (push VNone turned_event))) =
     Return turned_event"
    using b c push_pop_round_trip [of default_push_attrs turned_event "[]"
            "[(''x'', VNum 5), (''oz'', VNone)]"]
    by simp
  from 1 2 show ?thesis by simp
qed

text \<open>
  The claim as stated fails for a list that names the stack itself. Take the event with
  one snapshot on its stack; \<^verbatim>\<open>push(['push_attrs_stack'])\<close> returns; the caller then
  assigns \<^verbatim>\<open>push_attrs_stack = []\<close>; \<^verbatim>\<open>pop()\<close> raises \<^verbatim>\<open>IndexError\<close> and leaves the
  attribute empty, not the one-entry stack it held at the push.
\<close>

theorem push_pop_stack_counterexample:
  "returns (push (VList [VStr ''push_attrs_stack'']) pushed_event) \<and>
   pushed_event ''push_attrs_stack'' \<noteq> Some (VList []) \<and>
   pop (reassign [(''push_attrs_stack'', VList [])] repushed_event) =
     Raise IndexError (reassign [(''push_attrs_stack'', VList [])] repushed_event) \<and>
   reassign [(''push_attrs_stack'', VList [])] repushed_event ''push_attrs_stack'' =
     Some (VList [])"
proof -
  have "getattr pushed_event ''push_attrs_stack'' =
          Inr (VList [VTuple [VTuple (map VStr default_push_attrs),
       VList [VNum 100, VNum 100, VNum 0, VNum 100, VNum 100, VNum 0, VNum 0, VNum 0, VNum 0,
              VNum 0, VNum 0, VNum 0, VTuple [VNum 100, VNum 100]]]])"
    by (simp add: getattr_def)
  then have "returns (push (VList [VStr ''push_attrs_stack'']) pushed_event)"
    by (simp add: push_def push_seq_def attr_def)
  moreover have "pop (reassign [(''push_attrs_stack'', VList [])] repushed_event) =
     Raise IndexError (reassign [(''push_attrs_stack'', VList [])] repushed_event)"
    by (simp add: pop_def attr_def)
  ultimately show ?thesis by simp
qed

section \<open>The cached pair\<close>

lemma pos_consistent_iff:
  "pos_consistent e \<longleftrightarrow>
     (\<exists>x y. e ''x'' = Some x \<and> e ''y'' = Some y \<and> e ''pos'' = Some (VTuple [x, y]))"
  by (auto simp: pos_consistent_def split: option.splits)

lemma pos_inv_cong:
  assumes "e' ''x'' = e ''x''" "e' ''y'' = e ''y''" "e' ''pos'' = e ''pos''"
    and "e' ''push_attrs'' = e ''push_attrs''"
    and "e' ''push_attrs_stack'' = e ''push_attrs_stack''"
  shows "pos_inv e' = pos_inv e"
  unfolding pos_inv_def pos_consistent_iff assms ..

lemma pos_inv_init:
  "cls \<noteq> ''MotionEvent'' \<Longrightarrow> pos_inv (state_of (MotionEvent_init cls uniq now device ident args))"
  by (simp add: init_returns pos_inv_def pos_consistent_iff)

lemma pos_inv_depack: "pos_inv (state_of (depack args e)) = pos_inv e"
  by (rule pos_inv_cong) (simp_all add: depack_keeps)

lemma pos_inv_move: "pos_inv (state_of (move now args e)) = pos_inv e"
  by (rule pos_inv_cong) (simp_all add: move_keeps)

lemma pos_inv_grab: "pos_inv (state_of (grab ci ex e)) = pos_inv e"
  by (rule pos_inv_cong) (simp_all add: grab_keeps)

lemma pos_inv_ungrab: "pos_inv (state_of (ungrab ci e)) = pos_inv e"
  by (rule pos_inv_cong) (simp_all add: ungrab_keeps)

lemma cache_pos_Return: "cache_pos e = Return e' \<Longrightarrow> pos_consistent e'"
  by (auto simp: cache_pos_def attr_def pos_consistent_iff split: option.splits)

lemma scale_for_screen_Return:
  assumes "scale_for_screen w h p rotation e = Return e'"
  shows "pos_consistent e'"
proof -
  from assms obtain sx sy where
    "run [project w h rotation sx sy, set_z p, seed_screen,
          delta_assign ''dx'' ''x'' ''px'', delta_assign ''dy'' ''y'' ''py'',
          delta_assign ''dz'' ''z'' ''pz'', cache_pos] e = Return e'"
    by (auto simp: scale_for_screen_def attr_def split: option.splits)
  then obtain e6 where "run [cache_pos] e6 = Return e'"
    unfolding run_Cons_Return by blast
  then have "cache_pos e6 = Return e'"
    by simp
  then show ?thesis by (rule cache_pos_Return)
qed

lemma pos_inv_scale:
  assumes "pos_inv e" "scale_for_screen w h p rotation e = Return e'"
  shows "pos_inv e'"
proof -
  have "state_of (scale_for_screen w h p rotation e) n = e n"
    if "n = ''push_attrs'' \<or> n = ''push_attrs_stack''" for n
    using that by (intro scale_for_screen_keeps) auto
  with assms(2) have "e' ''push_attrs'' = e ''push_attrs''"
    "e' ''push_attrs_stack'' = e ''push_attrs_stack''"
    by simp_all
  with assms(1) scale_for_screen_Return [OF assms(2)] show ?thesis
    by (simp add: pos_inv_def)
qed

lemma transform_xy_state:
  assumes "returns_tuples f" "pos_consistent e"
  shows "pos_consistent (state_of (transform_pair f ''x'' ''y'' True e))"
proof (cases "transform_pair f ''x'' ''y'' True e")
  case (Raise err e1)
  then have "e1 = e"
    by (auto simp: transform_pair_def attr_def split: option.splits sum.splits prod.splits)
  with assms(2) Raise show ?thesis by simp
next
  case (Return e1)
  then obtain u v r u' v' where r: "e ''x'' = Some u" "e ''y'' = Some v" "f u v = Inr r"
    "unpack2 r = Inr (u', v')" and e1: "e1 = e(''x'' \<mapsto> u', ''y'' \<mapsto> v', ''pos'' \<mapsto> r)"
    by (auto simp: transform_pair_def attr_def split: option.splits sum.splits prod.splits)
  from assms(1) r(3) have "is_tuple r"
    by (auto simp: returns_tuples_def)
  then obtain xs where xs: "r = VTuple xs"
    by (cases r) simp_all
  with r(4) have "xs = [u', v']"
    by (auto simp: unpack2_def split: list.splits)
  with xs e1 Return show ?thesis
    by (simp add: pos_consistent_iff)
qed

lemma pos_inv_transform:
  assumes "pos_inv e" "returns_tuples f"
  shows "pos_inv (state_of (apply_transform_2d f e))"
proof -
  let ?rest = "[transform_pair f ''px'' ''py'' False, transform_pair f ''ox'' ''oy'' False,
             delta_assign ''dx'' ''x'' ''px'', delta_assign ''dy'' ''y'' ''py'']"
  let ?e1 = "state_of (transform_pair f ''x'' ''y'' True e)"
  from assms have c1: "pos_consistent ?e1"
    by (intro transform_xy_state) (simp_all add: pos_inv_def)
  have k: "state_of (run ?rest e1) n = e1 n" if "n = ''x'' \<or> n = ''y'' \<or> n = ''pos''" for n e1
    using that by (intro run_keeps) (auto simp: transform_pair_keeps delta_assign_keeps)
  have "state_of (apply_transform_2d f e) n = ?e1 n"
    if "n = ''x'' \<or> n = ''y'' \<or> n = ''pos''" for n
    using k [OF that]
    by (cases "transform_pair f ''x'' ''y'' True e") (simp_all add: apply_transform_2d_def)
  with c1 have c: "pos_consistent (state_of (apply_transform_2d f e))"
    by (simp add: pos_consistent_iff)
  have "state_of (apply_transform_2d f e) n = e n"
    if "n = ''push_attrs'' \<or> n = ''push_attrs_stack''" for n
    using that by (intro apply_transform_2d_keeps) auto
  with assms(1) c show ?thesis
    by (simp add: pos_inv_def)
qed

lemma getattrs_Inr:
  "getattrs e (map VStr ns) = Inr vs \<Longrightarrow> set ns \<inter> set properties = {} \<Longrightarrow>
   vs = map (\<lambda>n. the (e n)) ns \<and> set ns \<subseteq> dom e"
  by (induction ns arbitrary: vs)
     (auto simp: getattr_plain split: option.splits sum.splits)

lemma good_entryE:
  assumes "good_entry ent"
  obtains vs where "ent = VTuple [VTuple (map VStr default_push_attrs), VList vs]"
    "length vs = 13" "vs ! 12 = VTuple [vs ! 0, vs ! 1]"
proof (cases ent)
  case (VTuple xs)
  show ?thesis
  proof (cases xs)
    case Nil
    with VTuple assms show ?thesis by (simp add: good_entry_def)
  next
    case 1: (Cons a xs1)
    show ?thesis
    proof (cases xs1)
      case Nil
      with VTuple 1 assms show ?thesis by (simp add: good_entry_def)
    next
      case 2: (Cons b xs2)
      show ?thesis
      proof (cases xs2)
        case Nil
        show ?thesis
        proof (cases b)
          case (VList vs)
          with VTuple 1 2 Nil assms that [of vs] show ?thesis
            by (simp add: good_entry_def)
        qed (use VTuple 1 2 Nil assms in \<open>simp_all add: good_entry_def\<close>)
      next
        case (Cons c xs3)
        with VTuple 1 2 assms show ?thesis
          by (cases b) (simp_all add: good_entry_def)
      qed
    qed
  qed
qed (use assms in \<open>simp_all add: good_entry_def\<close>)

lemma pos_inv_stack:
  assumes "pos_inv e"
  obtains st where "e ''push_attrs_stack'' = Some (VList st)" "list_all good_entry st"
proof (cases "e ''push_attrs_stack''")
  case None
  with assms show ?thesis by (simp add: pos_inv_def)
next
  case (Some v)
  with assms that show ?thesis
    by (cases v) (simp_all add: pos_inv_def)
qed

lemma pos_inv_push:
  assumes "pos_inv e" "push VNone e = Return e'"
  shows "pos_inv e'"
proof -
  from assms(1) have pa: "e ''push_attrs'' = Some (VTuple (map VStr default_push_attrs))"
    and c: "pos_consistent e"
    by (simp_all add: pos_inv_def)
  from assms(1) obtain st where st: "e ''push_attrs_stack'' = Some (VList st)"
    "list_all good_entry st"
    by (rule pos_inv_stack)
  from assms(2) pa have p: "push_seq (VTuple (map VStr default_push_attrs)) e = Return e'"
    by (simp add: push_def attr_def)
  then obtain vs where g: "getattrs e (map VStr default_push_attrs) = Inr vs"
    by (auto simp: push_seq_def split: sum.splits)
  from getattrs_Inr [OF g default_not_properties]
  have vs: "vs = map (\<lambda>n. the (e n)) default_push_attrs" and d: "set default_push_attrs \<subseteq> dom e"
    by simp_all
  have e': "e' = e(''push_attrs_stack'' \<mapsto>
       VList (st @ [VTuple [VTuple (map VStr default_push_attrs),
                            VList (map (\<lambda>n. the (e n)) default_push_attrs)]]))"
    using push_default [OF pa d st(1)] assms(2) by simp
  from c obtain x y where xy: "e ''x'' = Some x" "e ''y'' = Some y" "e ''pos'' = Some (VTuple [x, y])"
    by (auto simp: pos_consistent_iff)
  have "good_entry (VTuple [VTuple (map VStr default_push_attrs),
                            VList (map (\<lambda>n. the (e n)) default_push_attrs)])"
    using xy by (simp add: good_entry_def default_push_attrs_def)
  with st(2) xy pa show ?thesis
    by (simp add: e' pos_inv_def pos_consistent_iff)
qed

lemma push_Raise: "push attrs e = Raise err e1 \<Longrightarrow> e1 = e"
  by (auto simp: push_def push_seq_def attr_def
      split: if_splits option.splits sum.splits val.splits)

lemma pos_inv_push_state:
  assumes "pos_inv e"
  shows "pos_inv (state_of (push VNone e))"
proof (cases "push VNone e")
  case (Return e')
  with assms pos_inv_push [of e e'] show ?thesis by simp
next
  case (Raise err e1)
  with assms push_Raise [of VNone e err e1] show ?thesis by simp
qed

lemma pos_inv_pop:
  assumes "pos_inv e"
  shows "pos_inv (state_of (pop e))"
proof -
  from assms have pa: "e ''push_attrs'' = Some (VTuple (map VStr default_push_attrs))"
    by (simp add: pos_inv_def)
  from assms obtain st where st: "e ''push_attrs_stack'' = Some (VList st)"
    "list_all good_entry st"
    by (rule pos_inv_stack)
  show ?thesis
  proof (cases "st = []")
    case True
    with st(1) have "pop e = Raise IndexError e"
      by (simp add: pop_def attr_def)
    with assms show ?thesis by simp
  next
    case ne: False
    then have split: "st = butlast st @ [last st]" by simp
    from st(2) ne have "good_entry (last st)"
      by (simp add: list_all_iff)
    then obtain vs where vs: "last st = VTuple [VTuple (map VStr default_push_attrs), VList vs]"
      "length vs = 13" "vs ! 12 = VTuple [vs ! 0, vs ! 1]"
      by (rule good_entryE)
    have s: "e ''push_attrs_stack'' =
               Some (VList (butlast st @ [VTuple [VTuple (map VStr default_push_attrs), VList vs]]))"
      using st(1) split vs(1) by simp
    note l = pop_default_lookup [where e = e, OF s vs(2)]
    have "state_of (pop e) ''push_attrs'' = e ''push_attrs''"
      using pop_default_keeps [where e = e, OF s, of "''push_attrs''"]
      by (simp add: default_push_attrs_def)
    with pa have pa': "state_of (pop e) ''push_attrs'' = Some (VTuple (map VStr default_push_attrs))"
      by simp
    have "list_all good_entry (butlast st)"
      using st(2) by (auto simp: list_all_iff dest: in_set_butlastD)
    with l pa' vs(3) show ?thesis
      by (simp add: pos_inv_def pos_consistent_iff)
  qed
qed

lemma reachable_pos_inv: "reachable e \<Longrightarrow> pos_inv e"
proof (induction rule: reachable.induct)
  case (r_init cls uniq now device ident args e)
  have "cls \<noteq> ''MotionEvent''"
  proof
    assume "cls = ''MotionEvent''"
    then have "MotionEvent_init cls uniq now device ident args =
        Raise (NotImplementedError ''class MotionEvent is abstract'') Map.empty"
      by (simp only: MotionEvent_init_def simp_thms if_True)
    with r_init show False by simp
  qed
  then have "pos_inv (state_of (MotionEvent_init cls uniq now device ident args))"
    by (rule pos_inv_init)
  then show ?case by (simp only: r_init state_of.simps)
next
  case (r_depack e args)
  then show ?case by (simp only: pos_inv_depack)
next
  case (r_move e now args)
  then show ?case by (simp only: pos_inv_move)
next
  case (r_scale e w h p rotation e')
  from r_scale.IH r_scale.hyps(2) show ?case by (rule pos_inv_scale)
next
  case (r_transform e transform)
  from r_transform.IH r_transform.hyps(2) show ?case by (rule pos_inv_transform)
next
  case (r_grab e ci ex)
  then show ?case by (simp only: pos_inv_grab)
next
  case (r_ungrab e ci)
  then show ?case by (simp only: pos_inv_ungrab)
next
  case (r_push e)
  then show ?case by (intro pos_inv_push_state)
next
  case (r_pop e)
  then show ?case by (intro pos_inv_pop)
qed

text \<open>
  Claim C10 (amended). On every event reachable from construction by calls of
  \<^verbatim>\<open>depack\<close>, \<^verbatim>\<open>move\<close>, \<^verbatim>\<open>grab\<close>, \<^verbatim>\<open>ungrab\<close>, \<^verbatim>\<open>push\<close> with the default push set, \<^verbatim>\<open>pop\<close> and
  \<^verbatim>\<open>apply_transform_2d\<close> with a transform that returns tuples (each of them whether it
  returns or raises), and by calls of \<^verbatim>\<open>scale_for_screen\<close> (any rotation) that return,
  the cached pair is the current screen position: \<^verbatim>\<open>pos == (x, y)\<close>. Each of these
  steps preserves it: the invariant \<open>pos_inv\<close> (the cached pair is consistent,
  \<^verbatim>\<open>push_attrs\<close> is the default set, and every snapshot on the stack is a default-set
  snapshot of a consistent pair) holds after construction and is kept by every step.
  The two restrictions are needed: \<^verbatim>\<open>apply_transform_2d\<close> binds \<^verbatim>\<open>pos\<close> to the very value
  the transform returned, so a transform returning a list leaves a list in \<^verbatim>\<open>pos\<close>; and
  a \<^verbatim>\<open>scale_for_screen\<close> that raises after assigning \<^verbatim>\<open>x\<close> and \<^verbatim>\<open>y\<close> never reaches the
  assignment of \<^verbatim>\<open>pos\<close>.
\<close>

theorem pos_cache_consistent:
  "(reachable e \<longrightarrow> pos_consistent e) \<and>
   (cls \<noteq> ''MotionEvent'' \<longrightarrow>
      pos_inv (state_of (MotionEvent_init cls uniq now device ident args))) \<and>
   (pos_inv e \<longrightarrow>
      pos_consistent e \<and>
      pos_inv (state_of (depack args e)) \<and>
      pos_inv (state_of (move now args e)) \<and>
      (scale_for_screen w h p rotation e = Return e' \<longrightarrow> pos_inv e') \<and>
      (returns_tuples f \<longrightarrow> pos_inv (state_of (apply_transform_2d f e))) \<and>
      pos_inv (state_of (grab ci ex e)) \<and>
      pos_inv (state_of (ungrab ci e)) \<and>
      pos_inv (state_of (push VNone e)) \<and>
      pos_inv (state_of (pop e)))"
proof (intro conjI impI)
  assume "reachable e"
  then have "pos_inv e" by (rule reachable_pos_inv)
  then show "pos_consistent e" by (simp add: pos_inv_def)
next
  assume "cls \<noteq> ''MotionEvent''"
  then show "pos_inv (state_of (MotionEvent_init cls uniq now device ident args))"
    by (rule pos_inv_init)
next
  assume i: "pos_inv e"
  then show "pos_consistent e" by (simp add: pos_inv_def)
  from i show "pos_inv (state_of (depack args e))" by (simp only: pos_inv_depack)
  from i show "pos_inv (state_of (move now args e))" by (simp only: pos_inv_move)
  from i show "pos_inv (state_of (grab ci ex e))" by (simp only: pos_inv_grab)
  from i show "pos_inv (state_of (ungrab ci e))" by (simp only: pos_inv_ungrab)
  from i show "pos_inv (state_of (push VNone e))" by (rule pos_inv_push_state)
  from i show "pos_inv (state_of (pop e))" by (rule pos_inv_pop)
  {
    assume "scale_for_screen w h p rotation e = Return e'"
    with i show "pos_inv e'" by (rule pos_inv_scale)
  }
  {
    assume "returns_tuples f"
    with i show "pos_inv (state_of (apply_transform_2d f e))" by (rule pos_inv_transform)
  }
qed

lemma returns_tuples_examples: "returns_tuples shift10" "returns_tuples const5"
  by (auto simp: returns_tuples_def shift10_def const5_def split: option.splits)

lemma reachable_turned_event: "reachable turned_event"
proof -
  have "MotionEvent_init ''MouseMotionEvent'' 0 0 (VStr ''mouse'') (VNum 1) VNone =
          Return example_event"
    by (simp add: init_returns example_event_eq)
  then have "reachable example_event" by (rule r_init)
  then have "reachable scaled_event"
    using scaled_event_returns by (rule r_scale)
  then show "reachable turned_event"
    using turned_event_returns by (rule r_scale)
qed

lemma reachable_shifted_event: "reachable shifted_event"
proof -
  have "reachable (state_of (push VNone turned_event))"
    using reachable_turned_event by (rule r_push)
  then have "reachable pushed_event"
    by (simp only: pushed_event_def)
  then have "reachable (state_of (apply_transform_2d shift10 pushed_event))"
    using returns_tuples_examples(1) by (rule r_transform)
  then show ?thesis by (simp only: shifted_event_def)
qed

theorem pos_cache_consistent_witness:
  "reachable shifted_event \<and> pos_consistent shifted_event \<and>
   shifted_event ''x'' = Some (VNum 110) \<and> shifted_event ''y'' = Some (VNum 110) \<and>
   shifted_event ''pos'' = Some (VTuple [VNum 110, VNum 110]) \<and>
   returns_tuples shift10 \<and>
   pos_inv (state_of (MotionEvent_init ''MouseMotionEvent'' 0 0 (VStr ''mouse'') (VNum 1) VNone)) \<and>
   pos_inv (state_of (pop shifted_event)) \<and>
   pos_inv (state_of (apply_transform_2d shift10 shifted_event)) \<and>
   pos_inv (state_of (scale_for_screen 100 100 None 45 shifted_event))"
proof -
  have r: "reachable shifted_event" by (rule reachable_shifted_event)
  then have i: "pos_inv shifted_event" by (rule reachable_pos_inv)
  have "screen_ready shifted_event"
    by (simp add: screen_ready_def numeric_def shifted_event_eq pushed_event_eq)
  then have "returns (scale_for_screen 100 100 None 45 shifted_event)"
    by (rule scale_for_screen_returns)
  then have s: "scale_for_screen 100 100 None 45 shifted_event =
             Return (state_of (scale_for_screen 100 100 None 45 shifted_event))"
    by (cases "scale_for_screen 100 100 None 45 shifted_event") simp_all
  from r i s returns_tuples_examples(1) show ?thesis
    using pos_cache_consistent [where e = shifted_event and w = 100 and h = 100 and p = None
            and rotation = 45 and f = shift10 and cls = "''MouseMotionEvent''" and uniq = 0
            and now = 0 and device = "VStr ''mouse''" and ident = "VNum 1" and args = VNone
            and e' = "state_of (scale_for_screen 100 100 None 45 shifted_event)"]
    by simp
qed

text \<open>
  The claim as stated fails in two ways. After construction and two projections, a
  translation that returns a list returns, and leaves \<^verbatim>\<open>x = y = 110\<close> with the list
  \<^verbatim>\<open>[110, 110]\<close> in \<^verbatim>\<open>pos\<close>, which is not the tuple \<^verbatim>\<open>(110, 110)\<close>. And after
  construction and the constant transform to (5, 5), which returns with \<^verbatim>\<open>pz\<close> still
  \<^verbatim>\<open>None\<close>, \<^verbatim>\<open>scale_for_screen\<close> assigns \<^verbatim>\<open>x = y = 0\<close> and then raises \<^verbatim>\<open>TypeError\<close> at
  \<^verbatim>\<open>self.z - self.pz\<close>, with \<^verbatim>\<open>pos\<close> still (5, 5).
\<close>

theorem pos_cache_counterexample:
  "reachable turned_event \<and>
   apply_transform_2d shift10_list turned_event = Return listed_event \<and>
   listed_event ''x'' = Some (VNum 110) \<and> listed_event ''y'' = Some (VNum 110) \<and>
   listed_event ''pos'' = Some (VList [VNum 110, VNum 110]) \<and>
   \<not> pos_consistent listed_event \<and>
   reachable early_event \<and>
   apply_transform_2d const5 example_event = Return early_event \<and>
   scale_for_screen 100 100 None 0 early_event = Raise TypeError stale_event \<and>
   stale_event ''x'' = Some (VNum 0) \<and> stale_event ''y'' = Some (VNum 0) \<and>
   stale_event ''pos'' = Some (VTuple [VNum 5, VNum 5]) \<and>
   \<not> pos_consistent stale_event"
proof -
  have l: "apply_transform_2d shift10_list turned_event =
     Return (turned_event(''x'' \<mapsto> VNum 110, ''y'' \<mapsto> VNum 110,
               ''pos'' \<mapsto> VList [VNum 110, VNum 110],
               ''px'' \<mapsto> VNum 10, ''py'' \<mapsto> VNum 10, ''ox'' \<mapsto> VNum 10, ''oy'' \<mapsto> VNum 10,
               ''dx'' \<mapsto> VNum 100, ''dy'' \<mapsto> VNum 100))"
    by (simp add: apply_transform_2d_def transform_pair_def shift10_list_def
        attr_def calc_def delta_assign_def)
  then have le: "listed_event = turned_event(''x'' \<mapsto> VNum 110, ''y'' \<mapsto> VNum 110,
               ''pos'' \<mapsto> VList [VNum 110, VNum 110],
               ''px'' \<mapsto> VNum 10, ''py'' \<mapsto> VNum 10, ''ox'' \<mapsto> VNum 10, ''oy'' \<mapsto> VNum 10,
               ''dx'' \<mapsto> VNum 100, ''dy'' \<mapsto> VNum 100)"
    by (simp add: listed_event_def)
  have c: "apply_transform_2d const5 example_event =
     Return (example_event(''x'' \<mapsto> VNum 5, ''y'' \<mapsto> VNum 5,
               ''pos'' \<mapsto> VTuple [VNum 5, VNum 5],
               ''px'' \<mapsto> VNum 5, ''py'' \<mapsto> VNum 5, ''ox'' \<mapsto> VNum 5, ''oy'' \<mapsto> VNum 5,
               ''dx'' \<mapsto> VNum 0, ''dy'' \<mapsto> VNum 0))"
    by (simp add: apply_transform_2d_def transform_pair_def const5_def
        attr_def calc_def delta_assign_def)
  then have ce: "early_event = example_event(''x'' \<mapsto> VNum 5, ''y'' \<mapsto> VNum 5,
               ''pos'' \<mapsto> VTuple [VNum 5, VNum 5],
               ''px'' \<mapsto> VNum 5, ''py'' \<mapsto> VNum 5, ''ox'' \<mapsto> VNum 5, ''oy'' \<mapsto> VNum 5,
               ''dx'' \<mapsto> VNum 0, ''dy'' \<mapsto> VNum 0)"
    by (simp add: early_event_def)
  have s: "scale_for_screen 100 100 None 0 early_event =
     Raise TypeError (early_event(''x'' \<mapsto> VNum 0, ''y'' \<mapsto> VNum 0,
               ''dx'' \<mapsto> VNum (- 5), ''dy'' \<mapsto> VNum (- 5)))"
    by (simp add: ce scale_defs stmt_defs)
  then have se: "stale_event = early_event(''x'' \<mapsto> VNum 0, ''y'' \<mapsto> VNum 0,
               ''dx'' \<mapsto> VNum (- 5), ''dy'' \<mapsto> VNum (- 5))"
    by (simp add: stale_event_def)
  have "reachable example_event"
    using reachable_pos_inv init_returns [of "''MouseMotionEvent''" 0 0 "VStr ''mouse''" "VNum 1" VNone]
    by (intro r_init [of "''MouseMotionEvent''" 0 0 "VStr ''mouse''" "VNum 1" VNone])
       (simp add: example_event_eq)
  then have "reachable (state_of (apply_transform_2d const5 example_event))"
    using returns_tuples_examples(2) by (rule r_transform)
  then have re: "reachable early_event"
    by (simp only: early_event_def)
  have 1: "apply_transform_2d shift10_list turned_event = Return listed_event"
    by (simp only: l le)
  have 2: "apply_transform_2d const5 example_event = Return early_event"
    by (simp only: c ce)
  have 3: "scale_for_screen 100 100 None 0 early_event = Raise TypeError stale_event"
    by (simp only: s se)
  have 4: "listed_event ''x'' = Some (VNum 110)" "listed_event ''y'' = Some (VNum 110)"
    "listed_event ''pos'' = Some (VList [VNum 110, VNum 110])"
    by (simp_all add: le)
  have 5: "stale_event ''x'' = Some (VNum 0)" "stale_event ''y'' = Some (VNum 0)"
    "stale_event ''pos'' = Some (VTuple [VNum 5, VNum 5])"
    by (simp_all add: se ce)
  have 6: "\<not> pos_consistent listed_event" "\<not> pos_consistent stale_event"
    using 4 5 by (simp_all add: pos_consistent_iff)
  from reachable_turned_event re 1 2 3 4 5 6 show ?thesis by simp
qed

end
